theory Spec2Isabelle
  imports Complex_Main
begin

section \<open>Session data: JSON values and JavaScript objects\<close>

text \<open>
  A JavaScript string is represented by the bytes of its UTF-8 encoding (generalised so that
  an unpaired surrogate is encoded like any other code point of the basic plane); equality of
  strings is equality of the byte lists.

  The \<open>data\<close> column of a session row holds \<open>JSON.stringify(data)\<close> and is read back with
  \<open>JSON.parse\<close>. Numbers are modelled as integers (the code stores counters and millisecond
  timestamps); floating point is outside the model.
\<close>

datatype json =
    JNull
  | JBool bool
  | JNum int
  | JStr string
  | JArr "json list"
  | JObj "(string \<times> json) list"

text \<open>
  A parsed JSON object maps keys to JSON values. An object built in memory may in addition bind a
  key to \<open>undefined\<close>, written \<open>Some None\<close>: the key is an own property whose value is
  \<open>undefined\<close>. \<open>None\<close> at the outer level means that the key is not a property.
\<close>

type_synonym jsdata = "string \<rightharpoonup> json"
type_synonym jsobject = "string \<rightharpoonup> json option"

text \<open>\<open>JSON.parse(JSON.stringify(o))\<close> on an object: properties bound to \<open>undefined\<close> are
  left out by \<open>JSON.stringify\<close>; JSON values survive unchanged.\<close>

definition stringify_parse :: "jsobject \<Rightarrow> jsdata" where
  "stringify_parse obj = (\<lambda>k. case obj k of None \<Rightarrow> None | Some v \<Rightarrow> v)"

text \<open>A parsed object seen as an in-memory object (no property is \<open>undefined\<close>).\<close>

definition parsed :: "jsdata \<Rightarrow> jsobject" where
  "parsed d = (\<lambda>k. map_option Some (d k))"

text \<open>The object spread \<open>{ ...a, ...b }\<close>: own properties of \<open>b\<close> (also those bound to
  \<open>undefined\<close>) override those of \<open>a\<close>.\<close>

definition spread :: "jsobject \<Rightarrow> jsobject \<Rightarrow> jsobject" where
  "spread a b = a ++ b"

section \<open>The sessions table (index.js, setupDatabase and initializeSessionManager)\<close>

text \<open>
  One record type serves for table rows (\<open>data\<close> is the parsed JSON text) and for the session
  objects handed to callers (\<open>data\<close> is an in-memory object). Times are milliseconds since the
  epoch.
\<close>

record 'd session =
  id' :: string
  chatId :: string
  type' :: string
  state :: string
  data :: 'd
  expires :: int
  createdAt :: int

type_synonym row = "jsdata session"
type_synonym js_session = "jsobject session"

text \<open>The table in insertion order. \<open>id\<close> is the primary key.\<close>

type_synonym db = "row list"

text \<open>
  What a call can throw. \<open>ErrorWithMessage\<close> is an \<open>Error\<close> object, or any other value
  whose \<open>message\<close> is a string; \<open>ValueWithoutMessage\<close> is a thrown value without one;
  \<open>TypeError\<close> is what reading a property of \<open>undefined\<close> throws.
\<close>

datatype error =
    SqliteConstraint
  | CoercionNotModelled
  | ErrorWithMessage
  | ValueWithoutMessage
  | TypeError

datatype 'a outcome = Threw error | Returned 'a

text \<open>Decimal rendering of \<open>Date.now()\<close> inside the template string of the session id.\<close>

definition digit :: "nat \<Rightarrow> char" where
  "digit n = ''0123456789'' ! n"

function dec_nat :: "nat \<Rightarrow> string" where
  "dec_nat n = (if n < 10 then [digit n] else dec_nat (n div 10) @ [digit (n mod 10)])"
  by pat_completeness auto
termination
  by (relation "measure (\<lambda>n. n)") auto

declare dec_nat.simps [simp del]

definition toString :: "int \<Rightarrow> string" where
  "toString i = (if i < 0 then CHR ''-'' # dec_nat (nat (- i)) else dec_nat (nat i))"

definition session_id :: "string \<Rightarrow> string \<Rightarrow> int \<Rightarrow> string" where
  "session_id chat ty now = chat @ ''_'' @ ty @ ''_'' @ toString now"

text \<open>
  Every operation below takes the value of \<open>Date.now()\<close> as the argument \<open>now\<close>; all reads of
  the clock inside one call return that value.
\<close>

definition createSession ::
  "int \<Rightarrow> string \<Rightarrow> string \<Rightarrow> jsobject \<Rightarrow> db \<Rightarrow> js_session outcome \<times> db" where
  "createSession now chat ty d db =
     (let sessionId = session_id chat ty now;
          expires = now + 15 * 60 * 1000
      in if sessionId \<in> id' ` set db then (Threw SqliteConstraint, db)
         else (Returned \<lparr>id' = sessionId, chatId = chat, type' = ty, state = [],
                          data = d, expires = expires, createdAt = now\<rparr>,
               db @ [\<lparr>id' = sessionId, chatId = chat, type' = ty, state = [],
                      data = stringify_parse d, expires = expires, createdAt = now\<rparr>]))"

text \<open>\<open>ORDER BY createdAt DESC LIMIT 1\<close>. SQL leaves the choice among rows of equal
  \<open>createdAt\<close> open; the model takes the one inserted first.\<close>

fun most_recent :: "row list \<Rightarrow> row option" where
  "most_recent [] = None"
| "most_recent (r # rs) =
     (case most_recent rs of
        None \<Rightarrow> Some r
      | Some r' \<Rightarrow> if createdAt r < createdAt r' then Some r' else Some r)"

text \<open>\<open>getSession(chatId, type = null)\<close>: the guard \<open>if (type)\<close> is false for \<open>null\<close>
  (\<open>None\<close>) and for the empty string.\<close>

definition type_matches :: "string option \<Rightarrow> row \<Rightarrow> bool" where
  "type_matches ty r = (case ty of None \<Rightarrow> True | Some t \<Rightarrow> t = [] \<or> type' r = t)"

definition getSession :: "int \<Rightarrow> string \<Rightarrow> string option \<Rightarrow> db \<Rightarrow> row option" where
  "getSession now chat ty db =
     most_recent (filter (\<lambda>r. chatId r = chat \<and> now < expires r \<and> type_matches ty r) db)"

text \<open>The \<open>updates\<close> argument of \<open>updateSession\<close>: each property may be absent.\<close>

record updates =
  u_state :: "string option"
  u_data :: "jsobject option"

definition apply_updates :: "updates \<Rightarrow> row \<Rightarrow> js_session" where
  "apply_updates u r =
     \<lparr>id' = id' r, chatId = chatId r, type' = type' r,
      state = (case u_state u of None \<Rightarrow> state r | Some s \<Rightarrow> s),
      data = (case u_data u of None \<Rightarrow> parsed (data r) | Some d \<Rightarrow> spread (parsed (data r)) d),
      expires = expires r, createdAt = createdAt r\<rparr>"

definition updateSession :: "string \<Rightarrow> updates \<Rightarrow> db \<Rightarrow> js_session option \<times> db" where
  "updateSession sessionId u db =
     (case find (\<lambda>r. id' r = sessionId) db of
        None \<Rightarrow> (None, db)
      | Some r \<Rightarrow>
          (let updatedSession = apply_updates u r
           in (Some updatedSession,
               map (\<lambda>x. if id' x = sessionId
                         then x\<lparr>state := state updatedSession,
                                data := stringify_parse (data updatedSession)\<rparr>
                         else x) db)))"

definition deleteSession :: "string \<Rightarrow> db \<Rightarrow> bool \<times> db" where
  "deleteSession sessionId db =
     (\<exists>r \<in> set db. id' r = sessionId, filter (\<lambda>r. id' r \<noteq> sessionId) db)"

definition deleteSessionsByType :: "string \<Rightarrow> string \<Rightarrow> db \<Rightarrow> bool \<times> db" where
  "deleteSessionsByType chat ty db =
     (\<exists>r \<in> set db. chatId r = chat \<and> type' r = ty,
      filter (\<lambda>r. \<not> (chatId r = chat \<and> type' r = ty)) db)"

definition extendSession :: "int \<Rightarrow> string \<Rightarrow> int \<Rightarrow> db \<Rightarrow> bool \<times> db" where
  "extendSession now sessionId minutes db =
     (let expires = now + minutes * 60 * 1000
      in (\<exists>r \<in> set db. id' r = sessionId,
          map (\<lambda>r. if id' r = sessionId then r\<lparr>expires := expires\<rparr> else r) db))"

text \<open>The sweep of \<open>setupSessionCleanup\<close>: \<open>DELETE FROM sessions WHERE expires < now\<close>.\<close>

definition cleanup :: "int \<Rightarrow> db \<Rightarrow> db" where
  "cleanup now db = filter (\<lambda>r. \<not> expires r < now) db"

section \<open>lib/sessionUtils.js\<close>

text \<open>\<open>getSessionData(chatId, sessionManager)\<close> as in lib/sessionUtils.js: the manager built
  by \<open>initializeSessionManager\<close> has a \<open>getSession\<close> function, which is called with the chat id
  alone.\<close>

definition getSessionData :: "int \<Rightarrow> string \<Rightarrow> db \<Rightarrow> row option" where
  "getSessionData now chat db = getSession now chat None db"

text \<open>
  \<open>getSessionData(chatId, sessionManager, excludeTypes = ['authenticated'])\<close> as in the
  longer version of lib/sessionUtils.js. It probes the manager for optional members; they are
  parameters here. \<open>None\<close> means that the manager has no such function.
\<close>

record session_manager =
  getActiveSession :: "(int \<Rightarrow> string \<Rightarrow> string list \<Rightarrow> db \<Rightarrow> row option) option"
  hasActiveProcessSession :: "(int \<Rightarrow> string \<Rightarrow> db \<Rightarrow> bool) option"
  exposes_db :: bool

definition getSessionData_excluding ::
  "session_manager \<Rightarrow> int \<Rightarrow> string \<Rightarrow> string list \<Rightarrow> db \<Rightarrow> row option" where
  "getSessionData_excluding m now chat excludeTypes db =
     (case getActiveSession m of
        Some f \<Rightarrow> f now chat excludeTypes db
      | None \<Rightarrow>
          (case hasActiveProcessSession m of
             Some h \<Rightarrow>
               if \<not> h now chat db then None
               else (case getSession now chat None db of
                       None \<Rightarrow> None
                     | Some s \<Rightarrow> if type' s \<notin> set excludeTypes then Some s else None)
           | None \<Rightarrow>
               if exposes_db m
               then most_recent
                      (filter (\<lambda>r. chatId r = chat \<and> now < expires r \<and>
                                   (if excludeTypes \<noteq> [] then type' r \<notin> set excludeTypes else True)) db)
               else getSession now chat None db))"

text \<open>The object returned by \<open>initializeSessionManager\<close> has the members \<open>createSession\<close>,
  \<open>getSession\<close>, \<open>updateSession\<close>, \<open>deleteSession\<close>, \<open>deleteSessionsByType\<close> and
  \<open>extendSession\<close>, and no others.\<close>

definition index_manager :: session_manager where
  "index_manager = \<lparr>getActiveSession = None, hasActiveProcessSession = None, exposes_db = False\<rparr>"

definition deleteSessionData :: "string \<Rightarrow> db \<Rightarrow> bool \<times> db" where
  "deleteSessionData sessionId db = deleteSession sessionId db"

section \<open>lib/authHandler.js\<close>

text \<open>The environment as the code reads it: \<open>BOT_PASSWORD\<close> is \<open>None\<close> when unset; the two
  numeric settings are the results of \<open>parseInt\<close>, \<open>None\<close> for \<open>NaN\<close>.\<close>

record config =
  BOT_PASSWORD :: "string option"
  MAX_LOGIN_ATTEMPTS :: "int option"
  LOGIN_TIMEOUT_MINUTES :: "int option"

text \<open>\<open>parseInt(v) || d\<close>: \<open>NaN\<close> and \<open>0\<close> are falsy.\<close>

definition or_default :: "int option \<Rightarrow> int \<Rightarrow> int" where
  "or_default v d = (case v of None \<Rightarrow> d | Some n \<Rightarrow> if n = 0 then d else n)"

definition maxAttempts :: "config \<Rightarrow> int" where
  "maxAttempts cfg = or_default (MAX_LOGIN_ATTEMPTS cfg) 3"

definition timeoutMinutes :: "config \<Rightarrow> int" where
  "timeoutMinutes cfg = or_default (LOGIN_TIMEOUT_MINUTES cfg) 30"

text \<open>JavaScript truthiness and numeric coercion of the JSON values the attempt record can
  hold. Non-empty strings, arrays and objects coerce through their text, which is not
  modelled (\<open>None\<close>).\<close>

fun truthy :: "json \<Rightarrow> bool" where
  "truthy JNull = False"
| "truthy (JBool b) = b"
| "truthy (JNum n) = (n \<noteq> 0)"
| "truthy (JStr s) = (s \<noteq> [])"
| "truthy (JArr _) = True"
| "truthy (JObj _) = True"

fun to_number :: "json \<Rightarrow> int option" where
  "to_number JNull = Some 0"
| "to_number (JBool b) = Some (if b then 1 else 0)"
| "to_number (JNum n) = Some n"
| "to_number (JStr s) = (if s = [] then Some 0 else None)"
| "to_number (JArr _) = None"
| "to_number (JObj _) = None"


text \<open>\<open>(session.data.attempts || 0) + 1\<close>.\<close>

definition next_attempts :: "json option \<Rightarrow> int option" where
  "next_attempts v =
     (case v of
        None \<Rightarrow> Some 1
      | Some j \<Rightarrow>
          if \<not> truthy j then Some 1
          else (case j of JNum n \<Rightarrow> Some (n + 1) | JBool _ \<Rightarrow> Some 2 | _ \<Rightarrow> None))"

text \<open>The object literal passed as \<open>data\<close> by \<open>trackFailedAttempt\<close> when it updates an existing
  record.\<close>

definition attempt_update :: "config \<Rightarrow> int \<Rightarrow> int \<Rightarrow> jsobject" where
  "attempt_update cfg now attempts =
     [''attempts'' \<mapsto> Some (JNum attempts),
      ''lastAttempt'' \<mapsto> Some (JNum now),
      ''blockedUntil'' \<mapsto>
         (if attempts \<ge> maxAttempts cfg then Some (JNum (now + timeoutMinutes cfg * 60 * 1000))
          else None)]"

definition trackFailedAttempt :: "config \<Rightarrow> int \<Rightarrow> string \<Rightarrow> db \<Rightarrow> unit outcome \<times> db" where
  "trackFailedAttempt cfg now chat db =
     (case getSession now chat (Some ''auth_attempts'') db of
        None \<Rightarrow>
          (case createSession now chat ''auth_attempts''
                  [''attempts'' \<mapsto> Some (JNum 1), ''lastAttempt'' \<mapsto> Some (JNum now)] db of
             (Threw e, db') \<Rightarrow> (Threw e, db')
           | (Returned s, db') \<Rightarrow> (Returned (), db'))
      | Some session \<Rightarrow>
          (case next_attempts (data session ''attempts'') of
             None \<Rightarrow> (Threw CoercionNotModelled, db)
           | Some attempts \<Rightarrow>
               (Returned (),
                snd (updateSession (id' session)
                       \<lparr>u_state = None, u_data = Some (attempt_update cfg now attempts)\<rparr> db))))"

definition clearFailedAttempts :: "string \<Rightarrow> db \<Rightarrow> db" where
  "clearFailedAttempts chat db = snd (deleteSessionsByType chat ''auth_attempts'' db)"

text \<open>The result of \<open>isUserBlocked\<close>; a property the code leaves out is \<open>None\<close>. The
  \<open>message\<close> text is not modelled.\<close>

record block_status =
  blocked :: bool
  remainingMinutes :: "int option"
  attemptsLeft :: "int option"

text \<open>\<open>Math.ceil(x / (60 * 1000))\<close> on integers.\<close>

definition ceil_minutes :: "int \<Rightarrow> int" where
  "ceil_minutes x = - ((- x) div (60 * 1000))"

definition isUserBlocked :: "config \<Rightarrow> int \<Rightarrow> string \<Rightarrow> db \<Rightarrow> block_status outcome \<times> db" where
  "isUserBlocked cfg now chat db =
     (case getSession now chat (Some ''auth_attempts'') db of
        None \<Rightarrow> (Returned \<lparr>blocked = False, remainingMinutes = None, attemptsLeft = None\<rparr>, db)
      | Some session \<Rightarrow>
          (case to_number (case data session ''attempts'' of None \<Rightarrow> JNum 0 | Some j \<Rightarrow> j) of
             None \<Rightarrow> (Threw CoercionNotModelled, db)
           | Some attempts \<Rightarrow>
               (case (if attempts \<ge> maxAttempts cfg
                      then (case data session ''blockedUntil'' of
                              None \<Rightarrow> None
                            | Some j \<Rightarrow> if truthy j then Some j else None)
                      else None) of
                  Some j \<Rightarrow>
                    (case to_number j of
                       None \<Rightarrow> (Threw CoercionNotModelled, db)
                     | Some blockedUntil \<Rightarrow>
                         if now < blockedUntil
                         then (Returned \<lparr>blocked = True,
                                          remainingMinutes = Some (ceil_minutes (blockedUntil - now)),
                                          attemptsLeft = None\<rparr>, db)
                         else (Returned \<lparr>blocked = False, remainingMinutes = None,
                                          attemptsLeft = None\<rparr>,
                               snd (deleteSessionsByType chat ''auth_attempts'' db)))
                | None \<Rightarrow>
                    (Returned \<lparr>blocked = False, remainingMinutes = None,
                               attemptsLeft = Some (maxAttempts cfg - attempts)\<rparr>, db))))"

definition createAuthenticatedSession :: "int \<Rightarrow> string \<Rightarrow> db \<Rightarrow> js_session outcome \<times> db" where
  "createAuthenticatedSession now chat db =
     (case createSession now chat ''authenticated''
             [''authenticated'' \<mapsto> Some (JBool True), ''loginTime'' \<mapsto> Some (JNum now)]
             (snd (deleteSessionsByType chat ''authenticated'' db)) of
        (Threw e, db') \<Rightarrow> (Threw e, db')
      | (Returned session, db') \<Rightarrow>
          (Returned session, snd (extendSession now (id' session) (24 * 60) db')))"

record auth_result =
  success :: bool
  message :: string

definition authenticateUser ::
  "config \<Rightarrow> int \<Rightarrow> string \<Rightarrow> string \<Rightarrow> db \<Rightarrow> auth_result outcome \<times> db" where
  "authenticateUser cfg now chat password db =
     (case BOT_PASSWORD cfg of
        None \<Rightarrow>
          (Returned \<lparr>success = False, message = ''Konfigurasi autentikasi tidak valid''\<rparr>, db)
      | Some correctPassword \<Rightarrow>
          if correctPassword = []
          then (Returned \<lparr>success = False, message = ''Konfigurasi autentikasi tidak valid''\<rparr>, db)
          else if password \<noteq> correctPassword
          then (case trackFailedAttempt cfg now chat db of
                  (Threw e, db') \<Rightarrow> (Threw e, db')
                | (Returned u, db') \<Rightarrow>
                    (Returned \<lparr>success = False, message = ''Password salah''\<rparr>, db'))
          else (case createAuthenticatedSession now chat (clearFailedAttempts chat db) of
                  (Threw e, db') \<Rightarrow> (Threw e, db')
                | (Returned s, db') \<Rightarrow>
                    (Returned \<lparr>success = True, message = ''Autentikasi berhasil''\<rparr>, db')))"

definition logoutUser :: "int \<Rightarrow> string \<Rightarrow> db \<Rightarrow> bool \<times> db" where
  "logoutUser now chat db =
     (case getSession now chat (Some ''authenticated'') db of
        None \<Rightarrow> (False, db)
      | Some session \<Rightarrow>
          (case data session ''authenticated'' of
             None \<Rightarrow> (False, db)
           | Some j \<Rightarrow>
               if truthy j then (True, snd (deleteSession (id' session) db)) else (False, db)))"

section \<open>Step handlers of index.js and lib/transferHandlers.js\<close>

text \<open>
  \<open>String.prototype.trim\<close> removes the white space and line terminator code points of
  ECMAScript from both ends: U+0009 to U+000D, U+0020, U+00A0, U+1680, U+2000 to U+200A,
  U+2028, U+2029, U+202F, U+205F, U+3000 and U+FEFF. \<open>white_space\<close> lists their UTF-8
  encodings.
\<close>

definition white_space :: "string list" where
  "white_space =
     [[CHR 0x09], [CHR 0x0A], [CHR 0x0B], [CHR 0x0C], [CHR 0x0D], [CHR 0x20],
      [CHR 0xC2, CHR 0xA0],
      [CHR 0xE1, CHR 0x9A, CHR 0x80],
      [CHR 0xE2, CHR 0x80, CHR 0x80], [CHR 0xE2, CHR 0x80, CHR 0x81],
      [CHR 0xE2, CHR 0x80, CHR 0x82], [CHR 0xE2, CHR 0x80, CHR 0x83],
      [CHR 0xE2, CHR 0x80, CHR 0x84], [CHR 0xE2, CHR 0x80, CHR 0x85],
      [CHR 0xE2, CHR 0x80, CHR 0x86], [CHR 0xE2, CHR 0x80, CHR 0x87],
      [CHR 0xE2, CHR 0x80, CHR 0x88], [CHR 0xE2, CHR 0x80, CHR 0x89],
      [CHR 0xE2, CHR 0x80, CHR 0x8A],
      [CHR 0xE2, CHR 0x80, CHR 0xA8], [CHR 0xE2, CHR 0x80, CHR 0xA9],
      [CHR 0xE2, CHR 0x80, CHR 0xAF],
      [CHR 0xE2, CHR 0x81, CHR 0x9F],
      [CHR 0xE3, CHR 0x80, CHR 0x80],
      [CHR 0xEF, CHR 0xBB, CHR 0xBF]]"

text \<open>\<open>strip ws s\<close> removes from the front of \<open>s\<close> every leading occurrence of a member of
  \<open>ws\<close>.\<close>

function strip :: "string list \<Rightarrow> string \<Rightarrow> string" where
  "strip ws s =
     (case find (\<lambda>w. w \<noteq> [] \<and> take (length w) s = w) ws of
        None \<Rightarrow> s
      | Some w \<Rightarrow> strip ws (drop (length w) s))"
  by pat_completeness auto
termination
proof (relation "measure (\<lambda>(ws, s). length s)")
  show "wf (measure (\<lambda>(ws, s). length s))" by simp
next
  fix ws :: "string list" and s w :: string
  assume "find (\<lambda>w. w \<noteq> [] \<and> take (length w) s = w) ws = Some w"
  then have "w \<noteq> []" and "take (length w) s = w"
    by (auto simp: find_Some_iff)
  then have "s \<noteq> []" by auto
  with \<open>w \<noteq> []\<close> show "((ws, drop (length w) s), (ws, s)) \<in> measure (\<lambda>(ws, s). length s)"
    by simp
qed

declare strip.simps [simp del]

definition trimStart :: "string \<Rightarrow> string" where
  "trimStart s = strip white_space s"

definition trimEnd :: "string \<Rightarrow> string" where
  "trimEnd s = rev (strip (map rev white_space) (rev s))"

definition trim :: "string \<Rightarrow> string" where
  "trim s = trimEnd (trimStart s)"

text \<open>
  \<open>String.prototype.toUpperCase\<close> converts with the Unicode case tables of the JavaScript
  runtime, which are not part of the repository: the conversion is an argument of the handler
  that uses it.

  The chat transport and the financial API are external collaborators. Each call the two
  handlers make is an argument: \<open>None\<close> means that the call resolves, \<open>Some e\<close> that it
  rejects with \<open>e\<close>. \<open>SdkFailure\<close> is an answer whose \<open>success\<close> is falsy;
  \<open>SdkRejects e\<close> is a call that rejects, or whose answer cannot be read, with \<open>e\<close>. The
  dispatcher passes on only messages that have a chat id and a non-empty text.
\<close>

datatype sdk_response = SdkSuccess | SdkFailure | SdkRejects error

text \<open>Whether \<open>error.message.includes(...)\<close> can be evaluated on a caught value.\<close>

fun has_message :: "error \<Rightarrow> bool" where
  "has_message ValueWithoutMessage = False"
| "has_message _ = True"

text \<open>\<open>await call; return x\<close>.\<close>

definition delivered :: "error option \<Rightarrow> 'a \<Rightarrow> 'a outcome" where
  "delivered call x = (case call of None \<Rightarrow> Returned x | Some e \<Rightarrow> Threw e)"

text \<open>
  The calls of the transfer confirmation step: \<open>reply\<close> is the one \<open>ctx.reply\<close> of the
  branch taken; \<open>editProcessing\<close> and \<open>editSuccess\<close> are the two \<open>editMessageText\<close> calls of
  \<open>completeDANABankTransfer\<close>; \<open>editFailure\<close> is the one in the \<open>catch\<close> block of
  \<open>handleTransferConfirmation\<close>.
\<close>

record collaborators =
  reply :: "error option"
  editProcessing :: "error option"
  transferDanaBankCreate :: sdk_response
  editSuccess :: "error option"
  editFailure :: "error option"

definition completeDANABankTransfer ::
  "collaborators \<Rightarrow> 'd session \<Rightarrow> db \<Rightarrow> unit outcome \<times> db" where
  "completeDANABankTransfer ext session db =
     (case editProcessing ext of
        Some e \<Rightarrow> (Threw e, db)
      | None \<Rightarrow>
          (case transferDanaBankCreate ext of
             SdkRejects e \<Rightarrow> (Threw e, db)
           | SdkFailure \<Rightarrow> (Threw ErrorWithMessage, db)
           | SdkSuccess \<Rightarrow>
               (case editSuccess ext of
                  Some e \<Rightarrow> (Threw e, db)
                | None \<Rightarrow> (Returned (), snd (deleteSessionData (id' session) db)))))"

text \<open>What \<open>handleTransferConfirmation\<close> tells the user.\<close>

datatype confirmation_reply =
    AskForText
  | TransferDone
  | TransferFailed
  | TransferCancelled
  | NotRecognised

definition handleTransferConfirmation ::
  "(string \<Rightarrow> string) \<Rightarrow> collaborators \<Rightarrow> string option \<Rightarrow> 'd session \<Rightarrow> db
     \<Rightarrow> confirmation_reply outcome \<times> db" where
  "handleTransferConfirmation toUpperCase ext text session db =
     (case text of
        None \<Rightarrow> (delivered (reply ext) AskForText, db)
      | Some t \<Rightarrow>
          if t = [] then (delivered (reply ext) AskForText, db)
          else
            (let confirmation = toUpperCase (trim t)
             in if confirmation = ''KONFIRMASI''
                then (case reply ext of
                        Some e \<Rightarrow> (Threw e, db)
                      | None \<Rightarrow>
                          (case completeDANABankTransfer ext session db of
                             (Returned u, db') \<Rightarrow> (Returned TransferDone, db')
                           | (Threw error, db') \<Rightarrow>
                               if \<not> has_message error then (Threw TypeError, db')
                               else (case editFailure ext of
                                       Some e \<Rightarrow> (Threw e, db')
                                     | None \<Rightarrow>
                                         (Returned TransferFailed,
                                          snd (deleteSessionData (id' session) db')))))
                else if confirmation = ''BATAL''
                then (delivered (reply ext) TransferCancelled,
                      snd (deleteSessionData (id' session) db))
                else (delivered (reply ext) NotRecognised, db)))"

text \<open>What \<open>handlePasswordInput\<close> tells the user.\<close>

datatype password_reply =
    InvalidInput
  | LockedOut
  | LoginSucceeded
  | LoginFailed
  | LoginError

text \<open>
  The chat calls of \<open>handlePasswordInput\<close>: \<open>p_reply\<close> is the one \<open>ctx.reply\<close> of the path
  taken, \<open>p_editResult\<close> the \<open>editMessageText\<close> inside \<open>try\<close> and \<open>p_editError\<close> the one in
  the \<open>catch\<close> block. A failure of \<open>ctx.deleteMessage\<close> is caught and ignored by the code.
\<close>

record password_io =
  p_reply :: "error option"
  p_editResult :: "error option"
  p_editError :: "error option"

definition handlePasswordInput ::
  "config \<Rightarrow> int \<Rightarrow> password_io \<Rightarrow> string option \<Rightarrow> string \<Rightarrow> 'd session \<Rightarrow> db
     \<Rightarrow> password_reply outcome \<times> db"
  where
  "handlePasswordInput cfg now io text chat session db =
     (case text of
        None \<Rightarrow> (delivered (p_reply io) InvalidInput, db)
      | Some t \<Rightarrow>
          if t = [] then (delivered (p_reply io) InvalidInput, db)
          else
            (let password = trim t
             in case isUserBlocked cfg now chat db of
                  (Threw e, db1) \<Rightarrow> (Threw e, db1)
                | (Returned blockStatus, db1) \<Rightarrow>
                    if blocked blockStatus
                    then (delivered (p_reply io) LockedOut,
                          snd (deleteSession (id' session) db1))
                    else
                      (case p_reply io of
                         Some e \<Rightarrow> (Threw e, db1)
                       | None \<Rightarrow>
                           (case authenticateUser cfg now chat password db1 of
                              (Threw e, db2) \<Rightarrow> (delivered (p_editError io) LoginError, db2)
                            | (Returned result, db2) \<Rightarrow>
                                if success result
                                then (case p_editResult io of
                                        Some e \<Rightarrow> (delivered (p_editError io) LoginError, db2)
                                      | None \<Rightarrow>
                                          (Returned LoginSucceeded,
                                           snd (deleteSession (id' session) db2)))
                                else
                                  (case isUserBlocked cfg now chat db2 of
                                     (Threw e, db3) \<Rightarrow>
                                       (delivered (p_editError io) LoginError, db3)
                                   | (Returned newBlockStatus, db3) \<Rightarrow>
                                       (let db4 =
                                              (if (case attemptsLeft newBlockStatus of
                                                     None \<Rightarrow> False
                                                   | Some n \<Rightarrow> n \<noteq> 0 \<and> n > 0)
                                               then db3
                                               else if blocked newBlockStatus
                                               then snd (deleteSession (id' session) db3)
                                               else db3)
                                        in case p_editResult io of
                                             Some e \<Rightarrow>
                                               (delivered (p_editError io) LoginError, db4)
                                           | None \<Rightarrow> (Returned LoginFailed, db4)))))))"

section \<open>The operations on the store\<close>

text \<open>
  The calls that change the table, as the bot issues them. \<open>CreateSession\<close> stands for the
  direct calls of \<open>createSession\<close> and \<open>createSessionData\<close> in index.js.
\<close>

datatype operation =
    CreateSession string string jsobject
  | UpdateSession string updates
  | DeleteSession string
  | DeleteSessionsByType string string
  | ExtendSession string int
  | Cleanup
  | Authenticate string string
  | IsBlocked string
  | Logout string
  | PasswordInput password_io "string option" string row
  | TransferConfirmation "string \<Rightarrow> string" collaborators "string option" row

fun exec :: "config \<Rightarrow> int \<Rightarrow> operation \<Rightarrow> db \<Rightarrow> db" where
  "exec cfg now (CreateSession chat ty d) db = snd (createSession now chat ty d db)"
| "exec cfg now (UpdateSession sid u) db = snd (updateSession sid u db)"
| "exec cfg now (DeleteSession sid) db = snd (deleteSession sid db)"
| "exec cfg now (DeleteSessionsByType chat ty) db = snd (deleteSessionsByType chat ty db)"
| "exec cfg now (ExtendSession sid minutes) db = snd (extendSession now sid minutes db)"
| "exec cfg now Cleanup db = cleanup now db"
| "exec cfg now (Authenticate chat password) db = snd (authenticateUser cfg now chat password db)"
| "exec cfg now (IsBlocked chat) db = snd (isUserBlocked cfg now chat db)"
| "exec cfg now (Logout chat) db = snd (logoutUser now chat db)"
| "exec cfg now (PasswordInput io text chat session) db =
     snd (handlePasswordInput cfg now io text chat session db)"
| "exec cfg now (TransferConfirmation toUpperCase ext text session) db =
     snd (handleTransferConfirmation toUpperCase ext text session db)"

text \<open>The only call of \<open>createSession\<close> with the kind \<open>authenticated\<close> is the one inside
  \<open>createAuthenticatedSession\<close>; the direct calls pass the literals \<open>login\<close>, \<open>add_wallet\<close>
  and \<open>dana_transfer\<close>.\<close>

fun issued_by_bot :: "operation \<Rightarrow> bool" where
  "issued_by_bot (CreateSession chat ty d) = (ty \<noteq> ''authenticated'')"
| "issued_by_bot _ = True"

fun run :: "config \<Rightarrow> (int \<times> operation) list \<Rightarrow> db \<Rightarrow> db" where
  "run cfg [] db = db"
| "run cfg ((now, op) # ops) db = run cfg ops (exec cfg now op db)"

text \<open>At most one row of kind \<open>authenticated\<close> per chat.\<close>

definition one_authenticated :: "db \<Rightarrow> bool" where
  "one_authenticated db = distinct (map chatId (filter (\<lambda>r. type' r = ''authenticated'') db))"

definition valid_authenticated :: "int \<Rightarrow> string \<Rightarrow> db \<Rightarrow> row list" where
  "valid_authenticated now chat db =
     filter (\<lambda>r. chatId r = chat \<and> type' r = ''authenticated'' \<and> now < expires r) db"

text \<open>The row that \<open>trackFailedAttempt\<close> creates at time \<open>t\<close>, with data \<open>d\<close>.\<close>

definition attempts_record :: "string \<Rightarrow> int \<Rightarrow> jsdata \<Rightarrow> row" where
  "attempts_record chat t d =
     \<lparr>id' = session_id chat ''auth_attempts'' t, chatId = chat, type' = ''auth_attempts'',
      state = [], data = d, expires = t + 15 * 60 * 1000, createdAt = t\<rparr>"

section \<open>Example stores\<close>

definition example_cfg :: config where
  "example_cfg = \<lparr>BOT_PASSWORD = Some ''s3cret'', MAX_LOGIN_ATTEMPTS = Some 3,
                   LOGIN_TIMEOUT_MINUTES = Some 30\<rparr>"

definition auth_row :: row where
  "auth_row = \<lparr>id' = ''42_authenticated_1000'', chatId = ''42'', type' = ''authenticated'',
     state = [], data = [''authenticated'' \<mapsto> JBool True, ''loginTime'' \<mapsto> JNum 1000],
     expires = 86401000, createdAt = 1000\<rparr>"

definition transfer_row :: row where
  "transfer_row = \<lparr>id' = ''42_dana_transfer_5000'', chatId = ''42'', type' = ''dana_transfer'',
     state = ''awaiting_transfer_confirmation'',
     data = [''amount'' \<mapsto> JNum 50000, ''accountNumber'' \<mapsto> JStr ''1234567890''],
     expires = 905000, createdAt = 5000\<rparr>"

definition expired_row :: row where
  "expired_row = \<lparr>id' = ''42_add_wallet_100'', chatId = ''42'', type' = ''add_wallet'',
     state = ''awaiting_phone'', data = [''walletCode'' \<mapsto> JStr ''DANA''],
     expires = 900100, createdAt = 100\<rparr>"

definition example_updates :: updates where
  "example_updates = \<lparr>u_state = Some ''awaiting_pin'',
     u_data = Some [''phoneNumber'' \<mapsto> Some (JStr ''81234567890''), ''walletCode'' \<mapsto> None]\<rparr>"

definition attempt_row :: row where
  "attempt_row = \<lparr>id' = ''42_auth_attempts_1000'', chatId = ''42'', type' = ''auth_attempts'',
     state = [], data = [''attempts'' \<mapsto> JNum 1, ''lastAttempt'' \<mapsto> JNum 1000],
     expires = 901000, createdAt = 1000\<rparr>"

definition locked_row :: row where
  "locked_row = \<lparr>id' = ''42_auth_attempts_1000'', chatId = ''42'', type' = ''auth_attempts'',
     state = [],
     data = [''attempts'' \<mapsto> JNum 3, ''lastAttempt'' \<mapsto> JNum 1500, ''blockedUntil'' \<mapsto> JNum 1801500],
     expires = 901000, createdAt = 1000\<rparr>"

definition stale_lock_row :: row where
  "stale_lock_row = \<lparr>id' = ''42_auth_attempts_1000'', chatId = ''42'', type' = ''auth_attempts'',
     state = [],
     data = [''attempts'' \<mapsto> JNum 3, ''lastAttempt'' \<mapsto> JNum 1500, ''blockedUntil'' \<mapsto> JNum 61500],
     expires = 901000, createdAt = 1000\<rparr>"

definition login_row :: row where
  "login_row = \<lparr>id' = ''42_login_1400'', chatId = ''42'', type' = ''login'',
     state = ''awaiting_password'', data = Map.empty, expires = 901400, createdAt = 1400\<rparr>"






section \<open>Properties of the lookup\<close>

lemmas eval_defs = getSession_def type_matches_def isUserBlocked_def authenticateUser_def
  createAuthenticatedSession_def clearFailedAttempts_def deleteSessionsByType_def createSession_def
  extendSession_def session_id_def toString_def dec_nat.simps digit_def Let_def
  maxAttempts_def timeoutMinutes_def or_default_def example_cfg_def trackFailedAttempt_def
  next_attempts_def updateSession_def apply_updates_def deleteSession_def


lemma most_recent_mem: "most_recent rs = Some r \<Longrightarrow> r \<in> set rs"
  by (induction rs arbitrary: r) (auto split: option.splits if_splits)

lemma most_recent_None: "most_recent rs = None \<longleftrightarrow> rs = []"
  by (cases rs) (auto split: option.splits)

lemma getSession_Some:
  "getSession now chat ty db = Some r \<Longrightarrow>
     r \<in> set db \<and> chatId r = chat \<and> now < expires r \<and> type_matches ty r"
  unfolding getSession_def by (drule most_recent_mem) simp

lemma getSession_None:
  "getSession now chat ty db = None \<longleftrightarrow>
     (\<forall>r \<in> set db. \<not> (chatId r = chat \<and> now < expires r \<and> type_matches ty r))"
  unfolding getSession_def by (simp add: most_recent_None filter_empty_conv)

text \<open>
  C8. The active-session lookup never returns a record whose \<open>expires\<close> is at or before the
  current time, whether or not the row is still in the table: whatever \<open>getSession\<close> returns
  is a stored row of the chat that expires strictly later than \<open>now\<close>, and when every row of
  the chat has \<open>expires \<le> now\<close> the lookup returns none.
\<close>

theorem getSession_never_expired:
  "(\<forall>r. getSession now chat ty db = Some r \<longrightarrow> r \<in> set db \<and> chatId r = chat \<and> now < expires r)
   \<and> (\<forall>r \<in> set db. expires r \<le> now \<longrightarrow> getSession now chat ty db \<noteq> Some r)
   \<and> ((\<forall>r \<in> set db. chatId r = chat \<longrightarrow> expires r \<le> now) \<longrightarrow> getSession now chat ty db = None)"
proof (intro conjI allI impI ballI)
  fix r assume "getSession now chat ty db = Some r"
  then show "r \<in> set db" "chatId r = chat" "now < expires r"
    using getSession_Some by blast+
next
  fix r assume "r \<in> set db" "expires r \<le> now"
  then show "getSession now chat ty db \<noteq> Some r"
    using getSession_Some [of now chat ty db r] by auto
next
  assume "\<forall>r \<in> set db. chatId r = chat \<longrightarrow> expires r \<le> now"
  then show "getSession now chat ty db = None"
    unfolding getSession_None by fastforce
qed

theorem getSession_never_expired_witness:
  "getSession 900100 ''42'' None [expired_row] = None
   \<and> getSession 900099 ''42'' None [expired_row] = Some expired_row"
proof -
  have "\<forall>r \<in> set [expired_row]. chatId r = ''42'' \<longrightarrow> expires r \<le> 900100"
    by (simp add: expired_row_def)
  with getSession_never_expired [of 900100 "''42''" None "[expired_row]"]
  have "getSession 900100 ''42'' None [expired_row] = None" by blast
  moreover have "getSession 900099 ''42'' None [expired_row] = Some expired_row"
    by (simp add: getSession_def expired_row_def type_matches_def)
  ultimately show ?thesis by simp
qed


text \<open>
  C1. The lookup used by flow dispatch, \<open>getSessionData\<close> with its default arguments, is
  claimed to leave out sessions of kind \<open>authenticated\<close>. On the store that holds one
  unexpired \<open>authenticated\<close> session of chat 42 and nothing else, \<open>getSessionData\<close> of
  lib/sessionUtils.js returns that session; so does the longer \<open>getSessionData\<close> with its
  default exclusion list when it is given the manager that \<open>initializeSessionManager\<close> builds,
  because that manager has none of the members the exclusion relies on.
\<close>

theorem getSessionData_returns_authenticated:
  "getSessionData 2000 ''42'' [auth_row] = Some auth_row
   \<and> getSessionData_excluding index_manager 2000 ''42'' [''authenticated''] [auth_row]
       = Some auth_row
   \<and> type' auth_row = ''authenticated''"
  by (simp add: getSessionData_def getSessionData_excluding_def index_manager_def
      getSession_def auth_row_def type_matches_def)

section \<open>Updating a session\<close>

lemma find_map_same_id:
  assumes "\<And>x. id' (g x) = id' x"
  shows "find (\<lambda>x. id' x = sid) (map (\<lambda>x. if id' x = sid then g x else x) db)
         = map_option g (find (\<lambda>x. id' x = sid) db)"
  using assms by (induction db) auto

lemma updateSession_None_iff:
  "fst (updateSession sid u db) = None \<longleftrightarrow> (\<forall>r \<in> set db. id' r \<noteq> sid)"
proof -
  have "fst (updateSession sid u db) = None \<longleftrightarrow> find (\<lambda>r. id' r = sid) db = None"
    by (simp add: updateSession_def Let_def split: option.splits)
  then show ?thesis by (auto simp: find_None_iff)
qed

lemma updateSession_found:
  assumes "find (\<lambda>x. id' x = sid) db = Some r"
  shows "fst (updateSession sid u db) = Some (apply_updates u r)"
    and "find (\<lambda>x. id' x = sid) (snd (updateSession sid u db))
          = Some (r\<lparr>state := state (apply_updates u r),
                    data := stringify_parse (data (apply_updates u r))\<rparr>)"
  using assms
  by (simp_all add: updateSession_def Let_def find_map_same_id)

lemma updateSession_others:
  "filter (\<lambda>x. id' x \<noteq> sid) (snd (updateSession sid u db)) = filter (\<lambda>x. id' x \<noteq> sid) db"
proof -
  have "filter (\<lambda>x. id' x \<noteq> sid) (map (\<lambda>x. if id' x = sid then g x else x) xs)
          = filter (\<lambda>x. id' x \<noteq> sid) xs" if "\<And>x. id' (g x) = id' x" for g :: "row \<Rightarrow> row" and xs
    using that by (induction xs) auto
  then show ?thesis
    by (simp add: updateSession_def Let_def split: option.splits)
qed

lemma merged_lookup:
  "stringify_parse (spread (parsed D) U) k = (case U k of None \<Rightarrow> D k | Some v \<Rightarrow> v)"
  by (simp add: stringify_parse_def spread_def parsed_def map_add_def split: option.splits)


text \<open>
  C2, as amended. \<open>updateSession\<close> returns the not-found outcome exactly when no row with
  the given id is stored. Expiry plays no part: a row whose \<open>expires\<close> has passed and that the
  sweep has not yet removed is updated like any other. When a row is found, the returned
  record carries the replaced state (when one is given) and the merged data, the stored row
  carries the same state and the serialised merged data with its other columns untouched, and
  rows with other ids are unchanged.
\<close>

theorem updateSession_fails_iff_no_row:
  "(fst (updateSession sid u db) = None \<longleftrightarrow> (\<forall>r \<in> set db. id' r \<noteq> sid))
   \<and> (\<forall>r. find (\<lambda>x. id' x = sid) db = Some r \<longrightarrow>
         (\<exists>s. fst (updateSession sid u db) = Some s
            \<and> id' s = sid \<and> chatId s = chatId r \<and> type' s = type' r
            \<and> expires s = expires r \<and> createdAt s = createdAt r
            \<and> state s = (case u_state u of None \<Rightarrow> state r | Some v \<Rightarrow> v)
            \<and> data s = (case u_data u of None \<Rightarrow> parsed (data r)
                                        | Some d \<Rightarrow> spread (parsed (data r)) d)
            \<and> find (\<lambda>x. id' x = sid) (snd (updateSession sid u db))
                = Some (r\<lparr>state := state s, data := stringify_parse (data s)\<rparr>)))
   \<and> filter (\<lambda>x. id' x \<noteq> sid) (snd (updateSession sid u db)) = filter (\<lambda>x. id' x \<noteq> sid) db"
proof (intro conjI allI impI)
  show "fst (updateSession sid u db) = None \<longleftrightarrow> (\<forall>r \<in> set db. id' r \<noteq> sid)"
    by (rule updateSession_None_iff)
next
  fix r assume f: "find (\<lambda>x. id' x = sid) db = Some r"
  then have "id' r = sid" by (auto simp: find_Some_iff)
  with updateSession_found [OF f, of u]
  show "\<exists>s. fst (updateSession sid u db) = Some s
            \<and> id' s = sid \<and> chatId s = chatId r \<and> type' s = type' r
            \<and> expires s = expires r \<and> createdAt s = createdAt r
            \<and> state s = (case u_state u of None \<Rightarrow> state r | Some v \<Rightarrow> v)
            \<and> data s = (case u_data u of None \<Rightarrow> parsed (data r)
                                        | Some d \<Rightarrow> spread (parsed (data r)) d)
            \<and> find (\<lambda>x. id' x = sid) (snd (updateSession sid u db))
                = Some (r\<lparr>state := state s, data := stringify_parse (data s)\<rparr>)"
    by (simp add: apply_updates_def)
next
  show "filter (\<lambda>x. id' x \<noteq> sid) (snd (updateSession sid u db)) = filter (\<lambda>x. id' x \<noteq> sid) db"
    by (rule updateSession_others)
qed

theorem updateSession_fails_iff_no_row_witness:
  "fst (updateSession ''42_add_wallet_999'' example_updates [expired_row]) = None
   \<and> (\<exists>s. fst (updateSession ''42_add_wallet_100'' example_updates [expired_row]) = Some s
          \<and> state s = ''awaiting_pin'' \<and> expires s = 900100)"
proof -
  have a: "\<forall>r \<in> set [expired_row]. id' r \<noteq> ''42_add_wallet_999''"
    by (simp add: expired_row_def)
  have b: "find (\<lambda>x. id' x = ''42_add_wallet_100'') [expired_row] = Some expired_row"
    by (simp add: expired_row_def)
  from updateSession_fails_iff_no_row [of "''42_add_wallet_999''" example_updates "[expired_row]"] a
  have "fst (updateSession ''42_add_wallet_999'' example_updates [expired_row]) = None"
    by blast
  moreover
  from updateSession_fails_iff_no_row [of "''42_add_wallet_100''" example_updates "[expired_row]"] b
  have "\<exists>s. fst (updateSession ''42_add_wallet_100'' example_updates [expired_row]) = Some s
          \<and> state s = ''awaiting_pin'' \<and> expires s = 900100"
    by (auto simp: example_updates_def expired_row_def)
  ultimately show ?thesis by simp
qed


text \<open>
  The claim C2 as stated fails: the row of \<open>expired_row\<close> expired at 900100, the active lookup
  at time 1000000 no longer returns it, and \<open>updateSession\<close> on its id still succeeds and
  persists the new state.
\<close>

theorem updateSession_expired_row_counterexample:
  "expires expired_row < 1000000
   \<and> getSession 1000000 ''42'' None [expired_row] = None
   \<and> map_option state (fst (updateSession ''42_add_wallet_100'' example_updates [expired_row]))
       = Some ''awaiting_pin''
   \<and> map state (snd (updateSession ''42_add_wallet_100'' example_updates [expired_row]))
       = [''awaiting_pin'']"
  by (simp add: expired_row_def getSession_def updateSession_def apply_updates_def
      example_updates_def)


text \<open>
  C7. Data updates are shallow merges. For an existing session with stored data \<open>D\<close> and an
  update whose data object is \<open>U\<close>, the stored data afterwards reads, at every key of \<open>U\<close>,
  the value \<open>U\<close> gives it (reading a key bound to \<open>undefined\<close> yields \<open>undefined\<close>, that is
  \<open>None\<close>), and at every key that is not in \<open>U\<close> the unchanged value of \<open>D\<close>.
\<close>

theorem updateSession_data_merge:
  assumes "find (\<lambda>x. id' x = sid) db = Some r" and "u_data u = Some U"
  shows "\<exists>r'. find (\<lambda>x. id' x = sid) (snd (updateSession sid u db)) = Some r'
           \<and> (\<forall>k v. U k = Some v \<longrightarrow> data r' k = v)
           \<and> (\<forall>k. U k = None \<longrightarrow> data r' k = data r k)"
  using updateSession_found(2) [OF assms(1), of u] assms(2)
  by (simp add: apply_updates_def merged_lookup)

theorem updateSession_data_merge_witness:
  "\<exists>r'. find (\<lambda>x. id' x = ''42_dana_transfer_5000'')
           (snd (updateSession ''42_dana_transfer_5000''
                   \<lparr>u_state = None, u_data = Some [''bankCode'' \<mapsto> Some (JStr ''BCA'')]\<rparr>
                   [transfer_row])) = Some r'
        \<and> data r' ''bankCode'' = Some (JStr ''BCA'')
        \<and> data r' ''amount'' = Some (JNum 50000)
        \<and> data r' ''accountNumber'' = Some (JStr ''1234567890'')"
proof -
  have f: "find (\<lambda>x. id' x = ''42_dana_transfer_5000'') [transfer_row] = Some transfer_row"
    by (simp add: transfer_row_def)
  have u: "u_data \<lparr>u_state = None, u_data = Some [''bankCode'' \<mapsto> Some (JStr ''BCA'')]\<rparr>
             = Some [''bankCode'' \<mapsto> Some (JStr ''BCA'')]"
    by simp
  from updateSession_data_merge [OF f u] obtain r' where
    r: "find (\<lambda>x. id' x = ''42_dana_transfer_5000'')
           (snd (updateSession ''42_dana_transfer_5000''
                   \<lparr>u_state = None, u_data = Some [''bankCode'' \<mapsto> Some (JStr ''BCA'')]\<rparr>
                   [transfer_row])) = Some r'"
    and k: "\<forall>k v. [''bankCode'' \<mapsto> Some (JStr ''BCA'')] k = Some v \<longrightarrow> data r' k = v"
    and o: "\<forall>k. [''bankCode'' \<mapsto> Some (JStr ''BCA'')] k = None \<longrightarrow> data r' k = data transfer_row k"
    by blast
  have "data r' ''bankCode'' = Some (JStr ''BCA'')" using k by simp
  moreover have "data r' ''amount'' = Some (JNum 50000)"
    using o [rule_format, of "''amount''"] by (simp add: transfer_row_def)
  moreover have "data r' ''accountNumber'' = Some (JStr ''1234567890'')"
    using o [rule_format, of "''accountNumber''"] by (simp add: transfer_row_def)
  ultimately show ?thesis using r by blast
qed


text \<open>
  C10. When the data object of an update binds a key to \<open>undefined\<close>, the stored data
  afterwards has no entry for that key, whatever was stored before, while the record returned
  to the caller still has the key bound to \<open>undefined\<close>. The attempt tracker writes
  \<open>blockedUntil: undefined\<close> in this way as long as the count is below \<open>maxAttempts\<close>.
\<close>

theorem updateSession_undefined_deletes:
  assumes "find (\<lambda>x. id' x = sid) db = Some r" and "u_data u = Some U" and "U k = Some None"
  shows "(\<exists>r'. find (\<lambda>x. id' x = sid) (snd (updateSession sid u db)) = Some r'
            \<and> k \<notin> dom (data r'))
         \<and> (\<exists>s. fst (updateSession sid u db) = Some s \<and> data s k = Some None)
         \<and> (attempts < maxAttempts cfg \<longrightarrow>
              attempt_update cfg now attempts ''blockedUntil'' = Some None)"
proof -
  have "stringify_parse (spread (parsed (data r)) U) k = None"
    using assms(3) by (simp add: merged_lookup)
  moreover have "spread (parsed (data r)) U k = Some None"
    using assms(3) by (simp add: spread_def)
  ultimately show ?thesis
    using updateSession_found [OF assms(1), of u] assms(2)
    by (simp add: apply_updates_def domIff attempt_update_def)
qed

theorem updateSession_undefined_deletes_witness:
  "data expired_row ''walletCode'' = Some (JStr ''DANA'')
   \<and> (\<exists>r'. find (\<lambda>x. id' x = ''42_add_wallet_100'')
              (snd (updateSession ''42_add_wallet_100'' example_updates [expired_row])) = Some r'
           \<and> ''walletCode'' \<notin> dom (data r'))"
proof -
  have f: "find (\<lambda>x. id' x = ''42_add_wallet_100'') [expired_row] = Some expired_row"
    by (simp add: expired_row_def)
  have u: "u_data example_updates
             = Some [''phoneNumber'' \<mapsto> Some (JStr ''81234567890''), ''walletCode'' \<mapsto> None]"
    by (simp add: example_updates_def)
  have k: "[''phoneNumber'' \<mapsto> Some (JStr ''81234567890''), ''walletCode'' \<mapsto> None] ''walletCode''
             = Some None"
    by simp
  from updateSession_undefined_deletes [OF f u k]
  show ?thesis by (simp add: expired_row_def)
qed



section \<open>The authentication engine\<close>

lemma ceil_minutes_real: "ceil_minutes x = \<lceil>real_of_int x / 60000\<rceil>"
proof -
  have "\<lceil>real_of_int x / real_of_int 60000\<rceil> = - (- x div 60000)"
    by (rule ceiling_divide_eq_div)
  then show ?thesis by (simp add: ceil_minutes_def)
qed

lemma extendSession_kinds:
  "map (\<lambda>r. (chatId r, type' r)) (snd (extendSession now sid m db)) = map (\<lambda>r. (chatId r, type' r)) db"
  by (induction db) (auto simp: extendSession_def Let_def)

lemma no_rows_kinds:
  "(\<forall>r \<in> set db. \<not> (chatId r = chat \<and> type' r = ty))
     \<longleftrightarrow> (chat, ty) \<notin> set (map (\<lambda>r. (chatId r, type' r)) db)"
  by auto

lemma createSession_Returned:
  assumes "createSession now chat ty d db = (Returned s, db')"
  shows "db' = db @ [\<lparr>id' = session_id chat ty now, chatId = chat, type' = ty, state = [],
                       data = stringify_parse d, expires = now + 15 * 60 * 1000,
                       createdAt = now\<rparr>]"
    and "id' s = session_id chat ty now"
    and "session_id chat ty now \<notin> id' ` set db"
  using assms by (auto simp: createSession_def Let_def split: if_splits)

lemma authenticateUser_success_no_attempts:
  assumes "authenticateUser cfg now chat pw db = (Returned res, db')" and "success res"
  shows "\<forall>r \<in> set db'. \<not> (chatId r = chat \<and> type' r = ''auth_attempts'')"
proof -
  from assms obtain s dbc where
    c: "createSession now chat ''authenticated''
          [''authenticated'' \<mapsto> Some (JBool True), ''loginTime'' \<mapsto> Some (JNum now)]
          (snd (deleteSessionsByType chat ''authenticated'' (clearFailedAttempts chat db)))
        = (Returned s, dbc)"
    and d: "db' = snd (extendSession now (id' s) (24 * 60) dbc)"
    by (auto simp: authenticateUser_def createAuthenticatedSession_def
        split: option.splits if_splits prod.splits outcome.splits)
  have "(chat, ''auth_attempts'') \<notin> set (map (\<lambda>r. (chatId r, type' r)) dbc)"
    unfolding createSession_Returned(1) [OF c]
    by (auto simp: clearFailedAttempts_def deleteSessionsByType_def)
  then have "(chat, ''auth_attempts'') \<notin> set (map (\<lambda>r. (chatId r, type' r)) db')"
    unfolding d extendSession_kinds .
  then show ?thesis unfolding no_rows_kinds .
qed

lemma isUserBlocked_no_record:
  "getSession now chat (Some ''auth_attempts'') db = None \<Longrightarrow>
   isUserBlocked cfg now chat db
     = (Returned \<lparr>blocked = False, remainingMinutes = None, attemptsLeft = None\<rparr>, db)"
  by (simp add: isUserBlocked_def)

text \<open>
  C3, as amended. \<open>isUserBlocked\<close> reads the unexpired \<open>auth_attempts\<close> record of the chat.
  With no such record it returns \<open>blocked = false\<close> and no \<open>attemptsLeft\<close>. With a record
  whose count has reached \<open>maxAttempts\<close> and whose \<open>blockedUntil\<close> lies in the future it
  returns \<open>blocked = true\<close> with \<open>remainingMinutes = ceil((blockedUntil - now) / 60000)\<close>
  and leaves the store alone. When \<open>blockedUntil\<close> has passed it deletes the
  \<open>auth_attempts\<close> rows of the chat and returns \<open>blocked = false\<close>. With a record below the
  threshold, or without \<open>blockedUntil\<close>, it returns \<open>blocked = false\<close> and
  \<open>attemptsLeft = maxAttempts - attempts\<close>. After a successful \<open>authenticateUser\<close> no
  \<open>auth_attempts\<close> record is left, so \<open>isUserBlocked\<close> returns \<open>blocked = false\<close> without
  \<open>attemptsLeft\<close>.
\<close>

theorem isUserBlocked_cases:
  "(getSession now chat (Some ''auth_attempts'') db = None \<longrightarrow>
      isUserBlocked cfg now chat db
        = (Returned \<lparr>blocked = False, remainingMinutes = None, attemptsLeft = None\<rparr>, db))
   \<and> (\<forall>s a b. getSession now chat (Some ''auth_attempts'') db = Some s
         \<and> data s ''attempts'' = Some (JNum a) \<and> data s ''blockedUntil'' = Some (JNum b)
         \<and> maxAttempts cfg \<le> a \<and> b \<noteq> 0 \<and> now < b \<longrightarrow>
      isUserBlocked cfg now chat db
        = (Returned \<lparr>blocked = True,
                     remainingMinutes = Some \<lceil>real_of_int (b - now) / 60000\<rceil>,
                     attemptsLeft = None\<rparr>, db))
   \<and> (\<forall>s a b. getSession now chat (Some ''auth_attempts'') db = Some s
         \<and> data s ''attempts'' = Some (JNum a) \<and> data s ''blockedUntil'' = Some (JNum b)
         \<and> maxAttempts cfg \<le> a \<and> b \<noteq> 0 \<and> b \<le> now \<longrightarrow>
      isUserBlocked cfg now chat db
        = (Returned \<lparr>blocked = False, remainingMinutes = None, attemptsLeft = None\<rparr>,
           filter (\<lambda>r. \<not> (chatId r = chat \<and> type' r = ''auth_attempts'')) db))
   \<and> (\<forall>s a. getSession now chat (Some ''auth_attempts'') db = Some s
         \<and> data s ''attempts'' = Some (JNum a)
         \<and> (a < maxAttempts cfg \<or> data s ''blockedUntil'' = None) \<longrightarrow>
      isUserBlocked cfg now chat db
        = (Returned \<lparr>blocked = False, remainingMinutes = None,
                     attemptsLeft = Some (maxAttempts cfg - a)\<rparr>, db))
   \<and> (\<forall>pw res db' t. authenticateUser cfg now chat pw db = (Returned res, db') \<and> success res \<longrightarrow>
      isUserBlocked cfg t chat db'
        = (Returned \<lparr>blocked = False, remainingMinutes = None, attemptsLeft = None\<rparr>, db'))"
proof (intro conjI allI impI)
  assume "getSession now chat (Some ''auth_attempts'') db = None"
  then show "isUserBlocked cfg now chat db
        = (Returned \<lparr>blocked = False, remainingMinutes = None, attemptsLeft = None\<rparr>, db)"
    by (rule isUserBlocked_no_record)
next
  fix s a b
  assume "getSession now chat (Some ''auth_attempts'') db = Some s
         \<and> data s ''attempts'' = Some (JNum a) \<and> data s ''blockedUntil'' = Some (JNum b)
         \<and> maxAttempts cfg \<le> a \<and> b \<noteq> 0 \<and> now < b"
  then show "isUserBlocked cfg now chat db
        = (Returned \<lparr>blocked = True,
                     remainingMinutes = Some \<lceil>real_of_int (b - now) / 60000\<rceil>,
                     attemptsLeft = None\<rparr>, db)"
    by (simp add: isUserBlocked_def ceil_minutes_real)
next
  fix s a b
  assume "getSession now chat (Some ''auth_attempts'') db = Some s
         \<and> data s ''attempts'' = Some (JNum a) \<and> data s ''blockedUntil'' = Some (JNum b)
         \<and> maxAttempts cfg \<le> a \<and> b \<noteq> 0 \<and> b \<le> now"
  then show "isUserBlocked cfg now chat db
        = (Returned \<lparr>blocked = False, remainingMinutes = None, attemptsLeft = None\<rparr>,
           filter (\<lambda>r. \<not> (chatId r = chat \<and> type' r = ''auth_attempts'')) db)"
    by (simp add: isUserBlocked_def deleteSessionsByType_def)
next
  fix s a
  assume "getSession now chat (Some ''auth_attempts'') db = Some s
         \<and> data s ''attempts'' = Some (JNum a)
         \<and> (a < maxAttempts cfg \<or> data s ''blockedUntil'' = None)"
  then show "isUserBlocked cfg now chat db
        = (Returned \<lparr>blocked = False, remainingMinutes = None,
                     attemptsLeft = Some (maxAttempts cfg - a)\<rparr>, db)"
    by (auto simp: isUserBlocked_def)
next
  fix pw res db' t
  assume "authenticateUser cfg now chat pw db = (Returned res, db') \<and> success res"
  then have "\<forall>r \<in> set db'. \<not> (chatId r = chat \<and> type' r = ''auth_attempts'')"
    using authenticateUser_success_no_attempts by blast
  then have "getSession t chat (Some ''auth_attempts'') db' = None"
    unfolding getSession_None by (auto simp: type_matches_def)
  then show "isUserBlocked cfg t chat db'
        = (Returned \<lparr>blocked = False, remainingMinutes = None, attemptsLeft = None\<rparr>, db')"
    by (rule isUserBlocked_no_record)
qed


theorem isUserBlocked_cases_witness:
  "isUserBlocked example_cfg 2000 ''42'' [login_row]
     = (Returned \<lparr>blocked = False, remainingMinutes = None, attemptsLeft = None\<rparr>, [login_row])
   \<and> isUserBlocked example_cfg 2000 ''42'' [login_row, locked_row]
     = (Returned \<lparr>blocked = True, remainingMinutes = Some 30, attemptsLeft = None\<rparr>,
        [login_row, locked_row])
   \<and> isUserBlocked example_cfg 2000 ''42'' [login_row, attempt_row]
     = (Returned \<lparr>blocked = False, remainingMinutes = None, attemptsLeft = Some 2\<rparr>,
        [login_row, attempt_row])
   \<and> isUserBlocked example_cfg 62000 ''42'' [login_row, stale_lock_row]
     = (Returned \<lparr>blocked = False, remainingMinutes = None, attemptsLeft = None\<rparr>,
        [login_row])
   \<and> fst (isUserBlocked example_cfg 3000 ''42''
            (snd (authenticateUser example_cfg 2500 ''42'' ''s3cret'' [login_row, attempt_row])))
     = Returned \<lparr>blocked = False, remainingMinutes = None, attemptsLeft = None\<rparr>"
proof -
  have n: "getSession 2000 ''42'' (Some ''auth_attempts'') [login_row] = None"
    by (simp add: eval_defs login_row_def)
  have l: "getSession 2000 ''42'' (Some ''auth_attempts'') [login_row, locked_row]
             = Some locked_row
           \<and> data locked_row ''attempts'' = Some (JNum 3)
           \<and> data locked_row ''blockedUntil'' = Some (JNum 1801500)
           \<and> maxAttempts example_cfg \<le> 3 \<and> (1801500::int) \<noteq> 0 \<and> (2000::int) < 1801500"
    by (simp add: eval_defs locked_row_def login_row_def)
  have a: "getSession 2000 ''42'' (Some ''auth_attempts'') [login_row, attempt_row]
             = Some attempt_row
           \<and> data attempt_row ''attempts'' = Some (JNum 1)
           \<and> (1 < maxAttempts example_cfg \<or> data attempt_row ''blockedUntil'' = None)"
    by (simp add: eval_defs attempt_row_def login_row_def)
  note c = isUserBlocked_cases [of 2000 "''42''" _ example_cfg]
  have "isUserBlocked example_cfg 2000 ''42'' [login_row]
     = (Returned \<lparr>blocked = False, remainingMinutes = None, attemptsLeft = None\<rparr>, [login_row])"
    using c [of "[login_row]"] n by blast
  moreover have "isUserBlocked example_cfg 2000 ''42'' [login_row, locked_row]
     = (Returned \<lparr>blocked = True, remainingMinutes = Some \<lceil>real_of_int (1801500 - 2000) / 60000\<rceil>,
                  attemptsLeft = None\<rparr>, [login_row, locked_row])"
    using c [of "[login_row, locked_row]"] l by blast
  moreover have "isUserBlocked example_cfg 2000 ''42'' [login_row, attempt_row]
     = (Returned \<lparr>blocked = False, remainingMinutes = None,
                  attemptsLeft = Some (maxAttempts example_cfg - 1)\<rparr>, [login_row, attempt_row])"
    using c [of "[login_row, attempt_row]"] a by blast
  moreover have "isUserBlocked example_cfg 62000 ''42'' [login_row, stale_lock_row]
     = (Returned \<lparr>blocked = False, remainingMinutes = None, attemptsLeft = None\<rparr>,
        filter (\<lambda>r. \<not> (chatId r = ''42'' \<and> type' r = ''auth_attempts''))
          [login_row, stale_lock_row])"
  proof -
    have "getSession 62000 ''42'' (Some ''auth_attempts'') [login_row, stale_lock_row]
             = Some stale_lock_row
           \<and> data stale_lock_row ''attempts'' = Some (JNum 3)
           \<and> data stale_lock_row ''blockedUntil'' = Some (JNum 61500)
           \<and> maxAttempts example_cfg \<le> 3 \<and> (61500::int) \<noteq> 0 \<and> (61500::int) \<le> 62000"
      by (simp add: eval_defs stale_lock_row_def login_row_def)
    then show ?thesis
      using isUserBlocked_cases [of 62000 "''42''" "[login_row, stale_lock_row]" example_cfg]
      by blast
  qed
  moreover have "fst (isUserBlocked example_cfg 3000 ''42''
            (snd (authenticateUser example_cfg 2500 ''42'' ''s3cret'' [login_row, attempt_row])))
     = Returned \<lparr>blocked = False, remainingMinutes = None, attemptsLeft = None\<rparr>"
  proof -
    obtain res db' where
      r: "authenticateUser example_cfg 2500 ''42'' ''s3cret'' [login_row, attempt_row] = (res, db')"
      by fastforce
    then have "res = Returned \<lparr>success = True, message = ''Autentikasi berhasil''\<rparr>"
      by (simp add: eval_defs login_row_def attempt_row_def prod_eq_iff)
    with r have "authenticateUser example_cfg 2500 ''42'' ''s3cret'' [login_row, attempt_row]
                   = (Returned \<lparr>success = True, message = ''Autentikasi berhasil''\<rparr>, db')
                 \<and> success \<lparr>success = True, message = ''Autentikasi berhasil''\<rparr>"
      by simp
    then have "isUserBlocked example_cfg 3000 ''42'' db'
                 = (Returned \<lparr>blocked = False, remainingMinutes = None, attemptsLeft = None\<rparr>, db')"
      using isUserBlocked_cases [of 2500 "''42''" "[login_row, attempt_row]" example_cfg]
      by blast
    then show ?thesis by (simp add: r)
  qed
  ultimately show ?thesis
    by (simp add: maxAttempts_def or_default_def example_cfg_def login_row_def
        stale_lock_row_def)
qed


text \<open>
  The claim C3 as stated fails in its last part: after one failed attempt and then a
  successful login, \<open>isUserBlocked\<close> returns no \<open>attemptsLeft\<close> at all, not
  \<open>attemptsLeft = maxAttempts = 3\<close>.
\<close>

theorem isUserBlocked_after_login_counterexample:
  "fst (authenticateUser example_cfg 2000 ''42'' ''s3cret'' [attempt_row])
     = Returned \<lparr>success = True, message = ''Autentikasi berhasil''\<rparr>
   \<and> fst (isUserBlocked example_cfg 2000 ''42''
            (snd (authenticateUser example_cfg 2000 ''42'' ''s3cret'' [attempt_row])))
     = Returned \<lparr>blocked = False, remainingMinutes = None, attemptsLeft = None\<rparr>
   \<and> maxAttempts example_cfg = 3"
  by (simp add: eval_defs attempt_row_def)









section \<open>The transfer confirmation step\<close>

lemma completeDANABankTransfer_result:
  "(fst (completeDANABankTransfer ext session db) = Returned ()
      \<longleftrightarrow> editProcessing ext = None \<and> transferDanaBankCreate ext = SdkSuccess
          \<and> editSuccess ext = None)
   \<and> snd (completeDANABankTransfer ext session db)
       = (if fst (completeDANABankTransfer ext session db) = Returned ()
          then filter (\<lambda>r. id' r \<noteq> id' session) db else db)"
  by (simp add: completeDANABankTransfer_def deleteSessionData_def deleteSession_def
      split: option.splits sdk_response.splits)





section \<open>Failed attempts and the lockout\<close>

lemma getSession_append_single:
  assumes "\<forall>x \<in> set db. \<not> (chatId x = chat \<and> now < expires x \<and> type_matches ty x)"
    and "chatId r = chat" and "now < expires r" and "type_matches ty r"
  shows "getSession now chat ty (db @ [r]) = Some r"
proof -
  have "filter (\<lambda>x. chatId x = chat \<and> now < expires x \<and> type_matches ty x) db = []"
    using assms(1) by (simp add: filter_empty_conv)
  then show ?thesis using assms(2-4) by (simp add: getSession_def)
qed

lemma updateSession_append_single:
  assumes "id' r \<notin> id' ` set db"
  shows "snd (updateSession (id' r) u (db @ [r]))
           = db @ [r\<lparr>state := state (apply_updates u r),
                      data := stringify_parse (data (apply_updates u r))\<rparr>]"
proof -
  have f: "find (\<lambda>x. id' x = id' r) (db @ [r]) = Some r"
    using assms by (induction db) auto
  have m: "map (\<lambda>x. if id' x = id' r then g x else x) db = db" for g :: "row \<Rightarrow> row"
    using assms by (induction db) auto
  show ?thesis by (simp add: updateSession_def f Let_def m)
qed

lemma trackFailedAttempt_first:
  assumes "getSession now chat (Some ''auth_attempts'') db = None"
    and "session_id chat ''auth_attempts'' now \<notin> id' ` set db"
  shows "trackFailedAttempt cfg now chat db
           = (Returned (),
              db @ [attempts_record chat now
                      (stringify_parse [''attempts'' \<mapsto> Some (JNum 1),
                                        ''lastAttempt'' \<mapsto> Some (JNum now)])])"
  using assms by (simp add: trackFailedAttempt_def createSession_def attempts_record_def Let_def)

lemma trackFailedAttempt_next:
  assumes "getSession now chat (Some ''auth_attempts'') db = None"
    and "session_id chat ''auth_attempts'' t1 \<notin> id' ` set db"
    and "now < t1 + 15 * 60 * 1000"
    and "d ''attempts'' = Some (JNum n)"
  shows "trackFailedAttempt cfg now chat (db @ [attempts_record chat t1 d])
           = (Returned (),
              db @ [attempts_record chat t1
                      (stringify_parse (spread (parsed d) (attempt_update cfg now (n + 1))))])"
proof -
  let ?r = "attempts_record chat t1 d"
  have g: "getSession now chat (Some ''auth_attempts'') (db @ [?r]) = Some ?r"
    using assms(1,3)
    by (intro getSession_append_single)
       (simp_all add: getSession_None attempts_record_def type_matches_def)
  have n: "next_attempts (data ?r ''attempts'') = Some (n + 1)"
    using assms(4) by (simp add: next_attempts_def attempts_record_def)
  have i: "id' ?r \<notin> id' ` set db"
    using assms(2) by (simp add: attempts_record_def)
  show ?thesis
    by (simp add: trackFailedAttempt_def g n updateSession_append_single [OF i]
        apply_updates_def)
       (simp add: attempts_record_def)
qed

lemma getSession_None_later:
  "getSession t1 chat ty db = None \<Longrightarrow> t1 \<le> t2 \<Longrightarrow> getSession t2 chat ty db = None"
  unfolding getSession_None by force

lemma authenticateUser_wrong:
  assumes "BOT_PASSWORD cfg = Some pw" and "pw \<noteq> []" and "wrong \<noteq> pw"
    and "trackFailedAttempt cfg now chat db = (Returned (), db')"
  shows "authenticateUser cfg now chat wrong db
           = (Returned \<lparr>success = False, message = ''Password salah''\<rparr>, db')"
  using assms by (simp add: authenticateUser_def)


lemma attempt_data_lookup:
  "stringify_parse (spread (parsed d) (attempt_update cfg now k)) ''attempts'' = Some (JNum k)"
  "stringify_parse (spread (parsed d) (attempt_update cfg now k)) ''blockedUntil''
     = (if maxAttempts cfg \<le> k then Some (JNum (now + timeoutMinutes cfg * 60 * 1000)) else None)"
  by (simp_all add: merged_lookup attempt_update_def)

lemma isUserBlocked_blocked:
  assumes "getSession now chat (Some ''auth_attempts'') db = Some s"
    and "data s ''attempts'' = Some (JNum a)" and "data s ''blockedUntil'' = Some (JNum b)"
    and "maxAttempts cfg \<le> a" and "b \<noteq> 0" and "now < b"
  shows "isUserBlocked cfg now chat db
           = (Returned \<lparr>blocked = True,
                        remainingMinutes = Some \<lceil>real_of_int (b - now) / 60000\<rceil>,
                        attemptsLeft = None\<rparr>, db)"
  using assms by (simp add: isUserBlocked_def ceil_minutes_real)

text \<open>
  C6, as amended. Let \<open>maxAttempts\<close> be 3 and let the chat start with no unexpired
  \<open>auth_attempts\<close> session. The attempt record lives for 15 minutes from the first failure
  and is never extended. When three wrong passwords arrive at times \<open>t1 \<le> t2 \<le> t3\<close> within
  that lifetime, the first creates the record with count 1, the second and third raise the
  count on that same record to 2 and 3, and the third stamps
  \<open>blockedUntil = t3 + lockoutWindow\<close> on it; \<open>isUserBlocked\<close>, asked at a time \<open>t\<close> at
  which the record is still unexpired and \<open>blockedUntil\<close> is ahead, returns
  \<open>blocked = true\<close>.
\<close>

theorem three_failures_block:
  assumes "BOT_PASSWORD cfg = Some pw" and "pw \<noteq> []" and "wrong \<noteq> pw"
    and "maxAttempts cfg = 3"
    and "getSession t1 chat (Some ''auth_attempts'') db = None"
    and "session_id chat ''auth_attempts'' t1 \<notin> id' ` set db"
    and "0 \<le> t1" and "t1 \<le> t2" and "t2 \<le> t3" and "t3 \<le> t"
    and "t < t1 + 15 * 60 * 1000" and "t < t3 + timeoutMinutes cfg * 60 * 1000"
  shows "\<exists>d1 d2 d3.
           run cfg [(t1, Authenticate chat wrong)] db = db @ [attempts_record chat t1 d1]
         \<and> d1 ''attempts'' = Some (JNum 1) \<and> d1 ''blockedUntil'' = None
         \<and> run cfg [(t1, Authenticate chat wrong), (t2, Authenticate chat wrong)] db
             = db @ [attempts_record chat t1 d2]
         \<and> d2 ''attempts'' = Some (JNum 2) \<and> d2 ''blockedUntil'' = None
         \<and> run cfg [(t1, Authenticate chat wrong), (t2, Authenticate chat wrong),
                     (t3, Authenticate chat wrong)] db
             = db @ [attempts_record chat t1 d3]
         \<and> d3 ''attempts'' = Some (JNum 3)
         \<and> d3 ''blockedUntil'' = Some (JNum (t3 + timeoutMinutes cfg * 60 * 1000))
         \<and> isUserBlocked cfg t chat (db @ [attempts_record chat t1 d3])
             = (Returned \<lparr>blocked = True,
                          remainingMinutes =
                            Some \<lceil>real_of_int (t3 + timeoutMinutes cfg * 60 * 1000 - t) / 60000\<rceil>,
                          attemptsLeft = None\<rparr>,
                db @ [attempts_record chat t1 d3])"
proof -
  define d1 where "d1 = stringify_parse [''attempts'' \<mapsto> Some (JNum 1),
                                          ''lastAttempt'' \<mapsto> Some (JNum t1)]"
  define d2 where "d2 = stringify_parse (spread (parsed d1) (attempt_update cfg t2 (1 + 1)))"
  define d3 where "d3 = stringify_parse (spread (parsed d2) (attempt_update cfg t3 (2 + 1)))"
  have a1: "d1 ''attempts'' = Some (JNum 1)" and b1: "d1 ''blockedUntil'' = None"
    by (simp_all add: d1_def stringify_parse_def)
  have a2: "d2 ''attempts'' = Some (JNum 2)" and b2: "d2 ''blockedUntil'' = None"
    using assms(4) by (simp_all add: d2_def attempt_data_lookup)
  have a3: "d3 ''attempts'' = Some (JNum 3)"
    and b3: "d3 ''blockedUntil'' = Some (JNum (t3 + timeoutMinutes cfg * 60 * 1000))"
    using assms(4) by (simp_all add: d3_def attempt_data_lookup)
  have n2: "getSession t2 chat (Some ''auth_attempts'') db = None"
    using assms(5,8) by (rule getSession_None_later)
  have n3: "getSession t3 chat (Some ''auth_attempts'') db = None"
    using n2 assms(9) by (rule getSession_None_later)
  have n: "getSession t chat (Some ''auth_attempts'') db = None"
    using n3 assms(10) by (rule getSession_None_later)
  have lt2: "t2 < t1 + 15 * 60 * 1000" and lt3: "t3 < t1 + 15 * 60 * 1000"
    using assms(9-11) by linarith+
  have s1: "authenticateUser cfg t1 chat wrong db
              = (Returned \<lparr>success = False, message = ''Password salah''\<rparr>,
                 db @ [attempts_record chat t1 d1])"
    using assms(1-3) trackFailedAttempt_first [OF assms(5,6), of cfg]
    unfolding d1_def by (rule authenticateUser_wrong)
  have s2: "authenticateUser cfg t2 chat wrong (db @ [attempts_record chat t1 d1])
              = (Returned \<lparr>success = False, message = ''Password salah''\<rparr>,
                 db @ [attempts_record chat t1 d2])"
    using assms(1-3) trackFailedAttempt_next [where d = d1 and n = 1 and cfg = cfg, OF n2 assms(6) lt2 a1]
    unfolding d2_def by (intro authenticateUser_wrong) simp_all
  have s3: "authenticateUser cfg t3 chat wrong (db @ [attempts_record chat t1 d2])
              = (Returned \<lparr>success = False, message = ''Password salah''\<rparr>,
                 db @ [attempts_record chat t1 d3])"
    using assms(1-3) trackFailedAttempt_next [where d = d2 and n = 2 and cfg = cfg, OF n3 assms(6) lt3 a2]
    unfolding d3_def by (intro authenticateUser_wrong) simp_all
  have g: "getSession t chat (Some ''auth_attempts'') (db @ [attempts_record chat t1 d3])
             = Some (attempts_record chat t1 d3)"
    using n assms(11)
    by (intro getSession_append_single)
       (simp_all add: getSession_None attempts_record_def type_matches_def)
  have nz: "t3 + timeoutMinutes cfg * 60 * 1000 \<noteq> 0"
    using assms(7-10,12) by linarith
  have blk: "isUserBlocked cfg t chat (db @ [attempts_record chat t1 d3])
             = (Returned \<lparr>blocked = True,
                          remainingMinutes =
                            Some \<lceil>real_of_int (t3 + timeoutMinutes cfg * 60 * 1000 - t) / 60000\<rceil>,
                          attemptsLeft = None\<rparr>,
                db @ [attempts_record chat t1 d3])"
    using assms(4,12) nz
    by (intro isUserBlocked_blocked [OF g, where a = 3])
       (simp_all add: attempts_record_def a3 b3)
  show ?thesis
    using a1 b1 a2 b2 a3 b3 blk by (auto simp: s1 s2 s3)
qed


theorem three_failures_block_witness:
  "fst (isUserBlocked example_cfg 5000 ''42''
          (run example_cfg [(2000, Authenticate ''42'' ''guess''),
                            (3000, Authenticate ''42'' ''guess''),
                            (4000, Authenticate ''42'' ''guess'')] [login_row]))
     = Returned \<lparr>blocked = True, remainingMinutes = Some 30, attemptsLeft = None\<rparr>"
proof -
  have h: "BOT_PASSWORD example_cfg = Some ''s3cret''" "''s3cret'' \<noteq> []" "''guess'' \<noteq> ''s3cret''"
    "maxAttempts example_cfg = 3"
    "getSession 2000 ''42'' (Some ''auth_attempts'') [login_row] = None"
    "session_id ''42'' ''auth_attempts'' 2000 \<notin> id' ` set [login_row]"
    "(0::int) \<le> 2000" "(2000::int) \<le> 3000" "(3000::int) \<le> 4000" "(4000::int) \<le> 5000"
    "(5000::int) < 2000 + 15 * 60 * 1000"
    "5000 < 4000 + timeoutMinutes example_cfg * 60 * 1000"
    by (simp_all add: eval_defs login_row_def)
  from three_failures_block [OF h] obtain d3 where
    r: "run example_cfg [(2000, Authenticate ''42'' ''guess''),
                         (3000, Authenticate ''42'' ''guess''),
                         (4000, Authenticate ''42'' ''guess'')] [login_row]
          = [login_row] @ [attempts_record ''42'' 2000 d3]"
    and b: "isUserBlocked example_cfg 5000 ''42'' ([login_row] @ [attempts_record ''42'' 2000 d3])
          = (Returned \<lparr>blocked = True,
               remainingMinutes = Some \<lceil>real_of_int (4000 + timeoutMinutes example_cfg * 60 * 1000 - 5000) / 60000\<rceil>,
               attemptsLeft = None\<rparr>, [login_row] @ [attempts_record ''42'' 2000 d3])"
    by blast
  show ?thesis
    unfolding r b by (simp add: timeoutMinutes_def or_default_def example_cfg_def)
qed

text \<open>
  The claim C6 as stated fails when the failures are further apart than the record lives:
  with wrong passwords at 1 s, 16 min 1 s and 32 min 1 s each failure finds no unexpired
  record and creates a new one with count 1, and \<open>isUserBlocked\<close> after the third reports
  \<open>blocked = false\<close> with two attempts left.
\<close>

theorem slow_failures_counterexample:
  "fst (isUserBlocked example_cfg 1921000 ''42''
          (run example_cfg [(1000, Authenticate ''42'' ''guess''),
                            (961000, Authenticate ''42'' ''guess''),
                            (1921000, Authenticate ''42'' ''guess'')] []))
     = Returned \<lparr>blocked = False, remainingMinutes = None, attemptsLeft = Some 2\<rparr>
   \<and> maxAttempts example_cfg = 3"
  by (simp add: eval_defs stringify_parse_def)


lemma getSession_append_expired:
  assumes "getSession now chat ty db = None" and "expires r \<le> now"
  shows "getSession now chat ty (db @ [r]) = None"
  using assms unfolding getSession_None by auto

text \<open>
  What happens once the record has expired: the attempt record is not extended when
  \<open>blockedUntil\<close> is stamped, so from 15 minutes after the first failure the lookup no longer
  finds it and \<open>isUserBlocked\<close> reports \<open>blocked = false\<close>, also when \<open>blockedUntil\<close> is
  still ahead.
\<close>

lemma lockout_ends_with_record:
  assumes "BOT_PASSWORD cfg = Some pw" and "pw \<noteq> []" and "wrong \<noteq> pw"
    and "maxAttempts cfg = 3"
    and "getSession t1 chat (Some ''auth_attempts'') db = None"
    and "session_id chat ''auth_attempts'' t1 \<notin> id' ` set db"
    and "t1 \<le> t2" and "t2 \<le> t3" and "t3 < t1 + 15 * 60 * 1000"
    and "t1 + 15 * 60 * 1000 \<le> t"
  shows "fst (isUserBlocked cfg t chat
           (run cfg [(t1, Authenticate chat wrong), (t2, Authenticate chat wrong),
                     (t3, Authenticate chat wrong)] db))
         = Returned \<lparr>blocked = False, remainingMinutes = None, attemptsLeft = None\<rparr>"
proof -
  define d1 where "d1 = stringify_parse [''attempts'' \<mapsto> Some (JNum 1),
                                          ''lastAttempt'' \<mapsto> Some (JNum t1)]"
  define d2 where "d2 = stringify_parse (spread (parsed d1) (attempt_update cfg t2 (1 + 1)))"
  define d3 where "d3 = stringify_parse (spread (parsed d2) (attempt_update cfg t3 (2 + 1)))"
  have a1: "d1 ''attempts'' = Some (JNum 1)"
    by (simp add: d1_def stringify_parse_def)
  have a2: "d2 ''attempts'' = Some (JNum 2)"
    by (simp add: d2_def attempt_data_lookup)
  have n2: "getSession t2 chat (Some ''auth_attempts'') db = None"
    using assms(5,7) by (rule getSession_None_later)
  have n3: "getSession t3 chat (Some ''auth_attempts'') db = None"
    using n2 assms(8) by (rule getSession_None_later)
  have le: "t3 \<le> t"
    using assms(9,10) by linarith
  have n: "getSession t chat (Some ''auth_attempts'') db = None"
    using n3 le by (rule getSession_None_later)
  have lt2: "t2 < t1 + 15 * 60 * 1000"
    using assms(8,9) by linarith
  have s1: "authenticateUser cfg t1 chat wrong db
              = (Returned \<lparr>success = False, message = ''Password salah''\<rparr>,
                 db @ [attempts_record chat t1 d1])"
    using assms(1-3) trackFailedAttempt_first [OF assms(5,6), of cfg]
    unfolding d1_def by (rule authenticateUser_wrong)
  have s2: "authenticateUser cfg t2 chat wrong (db @ [attempts_record chat t1 d1])
              = (Returned \<lparr>success = False, message = ''Password salah''\<rparr>,
                 db @ [attempts_record chat t1 d2])"
    using assms(1-3) trackFailedAttempt_next [where d = d1 and n = 1 and cfg = cfg, OF n2 assms(6) lt2 a1]
    unfolding d2_def by (intro authenticateUser_wrong) simp_all
  have s3: "authenticateUser cfg t3 chat wrong (db @ [attempts_record chat t1 d2])
              = (Returned \<lparr>success = False, message = ''Password salah''\<rparr>,
                 db @ [attempts_record chat t1 d3])"
    using assms(1-3) trackFailedAttempt_next [where d = d2 and n = 2 and cfg = cfg, OF n3 assms(6,9) a2]
    unfolding d3_def by (intro authenticateUser_wrong) simp_all
  have "getSession t chat (Some ''auth_attempts'') (db @ [attempts_record chat t1 d3]) = None"
    using n assms(10) by (intro getSession_append_expired) (simp_all add: attempts_record_def)
  then show ?thesis
    by (simp add: s1 s2 s3 isUserBlocked_def)
qed

lemma lockout_ends_with_record_example:
  "fst (isUserBlocked example_cfg 902000 ''42''
          (run example_cfg [(2000, Authenticate ''42'' ''guess''),
                            (3000, Authenticate ''42'' ''guess''),
                            (4000, Authenticate ''42'' ''guess'')] [login_row]))
     = Returned \<lparr>blocked = False, remainingMinutes = None, attemptsLeft = None\<rparr>
   \<and> (902000::int) < 4000 + timeoutMinutes example_cfg * 60 * 1000"
proof -
  have h: "BOT_PASSWORD example_cfg = Some ''s3cret''" "''s3cret'' \<noteq> []" "''guess'' \<noteq> ''s3cret''"
    "maxAttempts example_cfg = 3"
    "getSession 2000 ''42'' (Some ''auth_attempts'') [login_row] = None"
    "session_id ''42'' ''auth_attempts'' 2000 \<notin> id' ` set [login_row]"
    "(2000::int) \<le> 3000" "(3000::int) \<le> 4000"
    "(4000::int) < 2000 + 15 * 60 * 1000" "(2000::int) + 15 * 60 * 1000 \<le> 902000"
    by (simp_all add: eval_defs login_row_def)
  from lockout_ends_with_record [OF h]
  show ?thesis by (simp add: timeoutMinutes_def or_default_def example_cfg_def)
qed


section \<open>One authenticated session per chat\<close>

lemma one_authenticated_filter:
  "one_authenticated db \<Longrightarrow> one_authenticated (filter P db)"
proof -
  assume a: "one_authenticated db"
  have e: "filter (\<lambda>r. type' r = ''authenticated'') (filter P db)
          = filter P (filter (\<lambda>r. type' r = ''authenticated'') db)"
    by (induction db) auto
  show "one_authenticated (filter P db)"
    using a unfolding one_authenticated_def e by (rule distinct_map_filter)
qed

lemma one_authenticated_kinds:
  assumes "map (\<lambda>r. (chatId r, type' r)) db' = map (\<lambda>r. (chatId r, type' r)) db"
  shows "one_authenticated db' = one_authenticated db"
proof -
  have "map chatId (filter (\<lambda>r. type' r = ''authenticated'') xs)
          = map fst (filter (\<lambda>p. snd p = ''authenticated'') (map (\<lambda>r. (chatId r, type' r)) xs))"
    for xs :: db
    by (induction xs) auto
  then show ?thesis using assms by (simp add: one_authenticated_def)
qed

lemma one_authenticated_append_other:
  "type' r \<noteq> ''authenticated'' \<Longrightarrow> one_authenticated (db @ [r]) = one_authenticated db"
  by (simp add: one_authenticated_def)

lemma one_authenticated_append_new:
  assumes "one_authenticated db"
    and "\<forall>x \<in> set db. \<not> (chatId x = chatId r \<and> type' x = ''authenticated'')"
  shows "one_authenticated (db @ [r])"
  using assms by (auto simp: one_authenticated_def)

lemma updateSession_kinds:
  "map (\<lambda>r. (chatId r, type' r)) (snd (updateSession sid u db)) = map (\<lambda>r. (chatId r, type' r)) db"
  by (induction db) (auto simp: updateSession_def Let_def split: option.splits)

lemma createSession_preserves:
  assumes "one_authenticated db" and "ty \<noteq> ''authenticated''"
  shows "one_authenticated (snd (createSession now chat ty d db))"
  using assms by (simp add: createSession_def Let_def one_authenticated_append_other)

lemma updateSession_preserves:
  "one_authenticated db \<Longrightarrow> one_authenticated (snd (updateSession sid u db))"
  using one_authenticated_kinds [OF updateSession_kinds] by simp

lemma extendSession_preserves:
  "one_authenticated db \<Longrightarrow> one_authenticated (snd (extendSession now sid m db))"
  using one_authenticated_kinds [OF extendSession_kinds] by simp

lemma deleteSession_preserves:
  "one_authenticated db \<Longrightarrow> one_authenticated (snd (deleteSession sid db))"
  by (simp add: deleteSession_def one_authenticated_filter)

lemma deleteSessionsByType_preserves:
  "one_authenticated db \<Longrightarrow> one_authenticated (snd (deleteSessionsByType chat ty db))"
  by (simp add: deleteSessionsByType_def one_authenticated_filter)

lemma cleanup_preserves:
  "one_authenticated db \<Longrightarrow> one_authenticated (cleanup now db)"
  by (simp add: cleanup_def one_authenticated_filter)

lemma trackFailedAttempt_preserves:
  assumes "one_authenticated db"
  shows "one_authenticated (snd (trackFailedAttempt cfg now chat db))"
proof (cases "getSession now chat (Some ''auth_attempts'') db")
  case None
  have "one_authenticated (snd (createSession now chat ''auth_attempts'' d db))" for d
    using assms by (intro createSession_preserves) simp_all
  then have c: "one_authenticated db'" if "createSession now chat ''auth_attempts'' d db = (r, db')"
    for d r db'
    using that by (metis snd_conv)
  show ?thesis
    using None by (auto simp: trackFailedAttempt_def split: prod.splits outcome.splits intro: c)
next
  case (Some s)
  then show ?thesis
    using assms
    by (auto simp: trackFailedAttempt_def updateSession_preserves split: option.splits)
qed

lemma isUserBlocked_preserves:
  assumes "one_authenticated db"
  shows "one_authenticated (snd (isUserBlocked cfg now chat db))"
  using assms deleteSessionsByType_preserves [OF assms, of chat "''auth_attempts''"]
  by (auto simp: isUserBlocked_def split: option.splits if_splits)

lemma createAuthenticatedSession_preserves:
  assumes "one_authenticated db"
  shows "one_authenticated (snd (createAuthenticatedSession now chat db))"
proof -
  let ?base = "snd (deleteSessionsByType chat ''authenticated'' db)"
  let ?d = "[''authenticated'' \<mapsto> Some (JBool True), ''loginTime'' \<mapsto> Some (JNum now)]"
  have b: "one_authenticated ?base"
    using assms by (rule deleteSessionsByType_preserves)
  have n: "\<forall>x \<in> set ?base. \<not> (chatId x = chat \<and> type' x = ''authenticated'')"
    by (simp add: deleteSessionsByType_def)
  show ?thesis
  proof (cases "createSession now chat ''authenticated'' ?d ?base")
    case (Pair res db')
    show ?thesis
    proof (cases res)
      case (Threw e)
      with Pair have "db' = ?base"
        by (auto simp: createSession_def Let_def split: if_splits)
      with Pair Threw b show ?thesis
        by (simp add: createAuthenticatedSession_def)
    next
      case (Returned s)
      with Pair have "db' = ?base @ [\<lparr>id' = session_id chat ''authenticated'' now, chatId = chat,
                       type' = ''authenticated'', state = [],
                       data = stringify_parse ?d, expires = now + 15 * 60 * 1000,
                       createdAt = now\<rparr>]"
        using createSession_Returned(1) by blast
      then have "one_authenticated db'"
        using b n by (simp add: one_authenticated_append_new)
      with Pair Returned show ?thesis
        by (simp add: createAuthenticatedSession_def extendSession_preserves)
    qed
  qed
qed

lemma authenticateUser_preserves:
  assumes "one_authenticated db"
  shows "one_authenticated (snd (authenticateUser cfg now chat password db))"
proof -
  have c: "one_authenticated (clearFailedAttempts chat db)"
    using assms by (simp add: clearFailedAttempts_def deleteSessionsByType_preserves)
  have t: "one_authenticated db'" if "trackFailedAttempt cfg now chat db = (r, db')" for r db'
    using trackFailedAttempt_preserves [OF assms, of cfg now chat] that by simp
  have a: "one_authenticated db'"
    if "createAuthenticatedSession now chat (clearFailedAttempts chat db) = (r, db')" for r db'
    using createAuthenticatedSession_preserves [OF c, of now chat] that by simp
  show ?thesis
    using assms
    by (auto simp: authenticateUser_def split: option.splits prod.splits outcome.splits
        intro: t a)
qed

lemma logoutUser_preserves:
  "one_authenticated db \<Longrightarrow> one_authenticated (snd (logoutUser now chat db))"
  by (auto simp: logoutUser_def deleteSession_preserves split: option.splits)

lemma handleTransferConfirmation_preserves:
  assumes "one_authenticated db"
  shows "one_authenticated (snd (handleTransferConfirmation toUpperCase ext text session db))"
proof -
  have c: "snd (completeDANABankTransfer ext session db) = db
           \<or> snd (completeDANABankTransfer ext session db)
               = filter (\<lambda>r. id' r \<noteq> id' session) db"
    using completeDANABankTransfer_result [of ext session db] by presburger
  obtain r db' where p: "completeDANABankTransfer ext session db = (r, db')"
    by fastforce
  have d: "db' = db \<or> db' = filter (\<lambda>r. id' r \<noteq> id' session) db"
    using c p by simp
  have "snd (handleTransferConfirmation toUpperCase ext text session db) = db
        \<or> snd (handleTransferConfirmation toUpperCase ext text session db)
            = filter (\<lambda>r. id' r \<noteq> id' session) db"
    using d
    by (cases r)
       (auto simp: handleTransferConfirmation_def p deleteSessionData_def deleteSession_def
          Let_def split: option.splits)
  then show ?thesis using assms one_authenticated_filter by auto
qed

lemma handlePasswordInput_preserves:
  assumes "one_authenticated db"
  shows "one_authenticated (snd (handlePasswordInput cfg now io text chat session db))"
proof (cases "text")
  case None
  then show ?thesis using assms by (simp add: handlePasswordInput_def)
next
  case (Some t)
  show ?thesis
  proof (cases "t = []")
    case True
    then show ?thesis using assms Some by (simp add: handlePasswordInput_def)
  next
    case ne: False
    obtain r1 db1 where b1: "isUserBlocked cfg now chat db = (r1, db1)" by fastforce
    obtain r2 db2 where b2: "authenticateUser cfg now chat (trim t) db1 = (r2, db2)" by fastforce
    obtain r3 db3 where b3: "isUserBlocked cfg now chat db2 = (r3, db3)" by fastforce
    have i1: "one_authenticated db1"
      using isUserBlocked_preserves [OF assms, of cfg now chat] b1 by simp
    have i2: "one_authenticated db2"
      using authenticateUser_preserves [OF i1, of cfg now chat "trim t"] b2 by simp
    have i3: "one_authenticated db3"
      using isUserBlocked_preserves [OF i2, of cfg now chat] b3 by simp
    have d1: "one_authenticated (snd (deleteSession (id' session) db1))"
      using i1 by (rule deleteSession_preserves)
    have d2: "one_authenticated (snd (deleteSession (id' session) db2))"
      using i2 by (rule deleteSession_preserves)
    have d3: "one_authenticated (snd (deleteSession (id' session) db3))"
      using i3 by (rule deleteSession_preserves)
    have "snd (handlePasswordInput cfg now io text chat session db)
            \<in> {db1, db2, db3, snd (deleteSession (id' session) db1),
                snd (deleteSession (id' session) db2), snd (deleteSession (id' session) db3)}"
      unfolding handlePasswordInput_def Some Let_def
      by (simp add: ne b1 b2 b3 split: outcome.split option.split)
    then show ?thesis using i1 i2 i3 d1 d2 d3 by auto
  qed
qed

lemma distinct_within_singleton:
  assumes "distinct xs" and "set xs \<subseteq> {c}"
  shows "length xs \<le> 1"
proof (cases xs)
  case Nil
  then show ?thesis by simp
next
  case (Cons a ys)
  then show ?thesis using assms by (cases ys) auto
qed

lemma exec_preserves:
  assumes "one_authenticated db" and "issued_by_bot op"
  shows "one_authenticated (exec cfg now op db)"
  using assms
  by (cases op)
     (simp_all add: createSession_preserves updateSession_preserves deleteSession_preserves
        deleteSessionsByType_preserves extendSession_preserves cleanup_preserves
        authenticateUser_preserves isUserBlocked_preserves logoutUser_preserves
        handlePasswordInput_preserves handleTransferConfirmation_preserves)

lemma run_preserves:
  assumes "one_authenticated db" and "\<forall>p \<in> set ops. issued_by_bot (snd p)"
  shows "one_authenticated (run cfg ops db)"
  using assms
proof (induction ops arbitrary: db)
  case Nil
  then show ?case by simp
next
  case (Cons p ops)
  obtain now op where p: "p = (now, op)" by fastforce
  with Cons.prems have "one_authenticated (exec cfg now op db)"
    by (intro exec_preserves) simp_all
  with Cons p show ?case by simp
qed

lemma one_authenticated_valid:
  assumes "one_authenticated db"
  shows "length (valid_authenticated now chat db) \<le> 1"
proof -
  let ?xs = "filter (\<lambda>r. type' r = ''authenticated'') db"
  have v: "valid_authenticated now chat db = filter (\<lambda>r. chatId r = chat \<and> now < expires r) ?xs"
    by (induction db) (auto simp: valid_authenticated_def)
  have "distinct (map chatId (filter (\<lambda>r. chatId r = chat \<and> now < expires r) ?xs))"
    using assms unfolding one_authenticated_def by (rule distinct_map_filter)
  moreover have "set (map chatId (filter (\<lambda>r. chatId r = chat \<and> now < expires r) ?xs)) \<subseteq> {chat}"
    by auto
  ultimately have "length (map chatId (filter (\<lambda>r. chatId r = chat \<and> now < expires r) ?xs)) \<le> 1"
    by (rule distinct_within_singleton)
  then show ?thesis by (simp add: v)
qed


lemma map_other_ids:
  "sid \<notin> id' ` set db \<Longrightarrow> map (\<lambda>r. if id' r = sid then g r else r) db = db"
  by (induction db) auto

lemma authenticateUser_success:
  assumes "BOT_PASSWORD cfg = Some pw" and "pw \<noteq> []"
    and "session_id chat ''authenticated'' now
           \<notin> id' ` set (filter (\<lambda>r. \<not> (chatId r = chat \<and>
                  (type' r = ''auth_attempts'' \<or> type' r = ''authenticated''))) db)"
  shows "authenticateUser cfg now chat pw db
           = (Returned \<lparr>success = True, message = ''Autentikasi berhasil''\<rparr>,
              filter (\<lambda>r. \<not> (chatId r = chat \<and>
                  (type' r = ''auth_attempts'' \<or> type' r = ''authenticated''))) db
              @ [\<lparr>id' = session_id chat ''authenticated'' now, chatId = chat,
                   type' = ''authenticated'', state = [],
                   data = stringify_parse [''authenticated'' \<mapsto> Some (JBool True),
                                           ''loginTime'' \<mapsto> Some (JNum now)],
                   expires = now + 24 * 60 * 60 * 1000, createdAt = now\<rparr>])"
proof -
  let ?base = "filter (\<lambda>r. \<not> (chatId r = chat \<and>
                  (type' r = ''auth_attempts'' \<or> type' r = ''authenticated''))) db"
  have b: "snd (deleteSessionsByType chat ''authenticated'' (clearFailedAttempts chat db)) = ?base"
    by (induction db) (auto simp: deleteSessionsByType_def clearFailedAttempts_def)
  show ?thesis
    using assms
    by (simp add: authenticateUser_def createAuthenticatedSession_def b createSession_def
        Let_def extendSession_def map_other_ids)
qed

lemma valid_authenticated_after_login:
  assumes "t < now + 24 * 60 * 60 * 1000"
  shows "valid_authenticated t chat
           (filter (\<lambda>r. \<not> (chatId r = chat \<and>
                  (type' r = ''auth_attempts'' \<or> type' r = ''authenticated''))) db
            @ [\<lparr>id' = sid, chatId = chat, type' = ''authenticated'', state = st, data = d,
                 expires = now + 24 * 60 * 60 * 1000, createdAt = now\<rparr>])
         = [\<lparr>id' = sid, chatId = chat, type' = ''authenticated'', state = st, data = d,
              expires = now + 24 * 60 * 60 * 1000, createdAt = now\<rparr>]"
proof -
  have "filter (\<lambda>r. chatId r = chat \<and> type' r = ''authenticated'' \<and> t < expires r)
          (filter (\<lambda>r. \<not> (chatId r = chat \<and>
                  (type' r = ''auth_attempts'' \<or> type' r = ''authenticated''))) db) = []"
    by (induction db) auto
  then show ?thesis using assms by (simp add: valid_authenticated_def)
qed

text \<open>
  C5, as amended. A successful \<open>authenticateUser\<close> (the supplied password is the configured
  secret and the insert of the new row does not meet a stored id) removes the
  \<open>auth_attempts\<close> rows and the earlier \<open>authenticated\<close> rows of the chat, appends a fresh
  \<open>authenticated\<close> row and sets its expiry to 24 hours after \<open>now\<close>; that row is then the
  only valid \<open>authenticated\<close> session of the chat. That the table holds at most one
  \<open>authenticated\<close> row per chat is preserved by every operation other than a direct
  \<open>createSession\<close> of kind \<open>authenticated\<close>, which the bot issues nowhere outside
  \<open>authenticateUser\<close>: it holds after every run of such operations from the empty table,
  and wherever it holds at most one \<open>authenticated\<close> session of a chat is valid at any time.
\<close>

theorem authenticate_single_session:
  "(BOT_PASSWORD cfg = Some pw \<and> pw \<noteq> []
      \<and> session_id chat ''authenticated'' now
           \<notin> id' ` set (filter (\<lambda>r. \<not> (chatId r = chat \<and>
                  (type' r = ''auth_attempts'' \<or> type' r = ''authenticated''))) db)
      \<and> t < now + 24 * 60 * 60 * 1000 \<longrightarrow>
      (\<exists>new. authenticateUser cfg now chat pw db
               = (Returned \<lparr>success = True, message = ''Autentikasi berhasil''\<rparr>,
                  filter (\<lambda>r. \<not> (chatId r = chat \<and>
                      (type' r = ''auth_attempts'' \<or> type' r = ''authenticated''))) db @ [new])
           \<and> id' new = session_id chat ''authenticated'' now
           \<and> chatId new = chat \<and> type' new = ''authenticated''
           \<and> data new ''authenticated'' = Some (JBool True)
           \<and> createdAt new = now \<and> expires new = now + 24 * 60 * 60 * 1000
           \<and> valid_authenticated t chat (snd (authenticateUser cfg now chat pw db)) = [new]))
   \<and> (one_authenticated db \<and> issued_by_bot op \<longrightarrow> one_authenticated (exec cfg t op db))
   \<and> ((\<forall>p \<in> set ops. issued_by_bot (snd p)) \<longrightarrow> one_authenticated (run cfg ops []))
   \<and> (one_authenticated db \<longrightarrow> length (valid_authenticated t chat db) \<le> 1)"
proof (intro conjI impI)
  assume a: "BOT_PASSWORD cfg = Some pw \<and> pw \<noteq> []
      \<and> session_id chat ''authenticated'' now
           \<notin> id' ` set (filter (\<lambda>r. \<not> (chatId r = chat \<and>
                  (type' r = ''auth_attempts'' \<or> type' r = ''authenticated''))) db)
      \<and> t < now + 24 * 60 * 60 * 1000"
  let ?new = "\<lparr>id' = session_id chat ''authenticated'' now, chatId = chat,
                type' = ''authenticated'', state = [],
                data = stringify_parse [''authenticated'' \<mapsto> Some (JBool True),
                                        ''loginTime'' \<mapsto> Some (JNum now)],
                expires = now + 24 * 60 * 60 * 1000, createdAt = now\<rparr>"
  have s: "authenticateUser cfg now chat pw db
             = (Returned \<lparr>success = True, message = ''Autentikasi berhasil''\<rparr>,
                filter (\<lambda>r. \<not> (chatId r = chat \<and>
                    (type' r = ''auth_attempts'' \<or> type' r = ''authenticated''))) db @ [?new])"
    using a by (intro authenticateUser_success) simp_all
  have v: "valid_authenticated t chat (snd (authenticateUser cfg now chat pw db)) = [?new]"
    unfolding s snd_conv using a by (intro valid_authenticated_after_login) simp
  have d: "data ?new ''authenticated'' = Some (JBool True)"
    by (simp add: stringify_parse_def)
  show "\<exists>new. authenticateUser cfg now chat pw db
               = (Returned \<lparr>success = True, message = ''Autentikasi berhasil''\<rparr>,
                  filter (\<lambda>r. \<not> (chatId r = chat \<and>
                      (type' r = ''auth_attempts'' \<or> type' r = ''authenticated''))) db @ [new])
           \<and> id' new = session_id chat ''authenticated'' now
           \<and> chatId new = chat \<and> type' new = ''authenticated''
           \<and> data new ''authenticated'' = Some (JBool True)
           \<and> createdAt new = now \<and> expires new = now + 24 * 60 * 60 * 1000
           \<and> valid_authenticated t chat (snd (authenticateUser cfg now chat pw db)) = [new]"
    using s v d by (intro exI [of _ ?new]) simp
next
  assume "one_authenticated db \<and> issued_by_bot op"
  then show "one_authenticated (exec cfg t op db)"
    using exec_preserves by blast
next
  assume "\<forall>p \<in> set ops. issued_by_bot (snd p)"
  moreover have "one_authenticated []" by (simp add: one_authenticated_def)
  ultimately show "one_authenticated (run cfg ops [])"
    using run_preserves by blast
next
  assume "one_authenticated db"
  then show "length (valid_authenticated t chat db) \<le> 1"
    by (rule one_authenticated_valid)
qed

theorem authenticate_single_session_witness:
  "map id' (snd (authenticateUser example_cfg 2000 ''42'' ''s3cret''
                   [auth_row, attempt_row, transfer_row]))
     = [''42_dana_transfer_5000'', ''42_authenticated_2000'']
   \<and> map expires (valid_authenticated 3000 ''42''
                     (snd (authenticateUser example_cfg 2000 ''42'' ''s3cret''
                             [auth_row, attempt_row, transfer_row])))
     = [86402000]
   \<and> one_authenticated
        (run example_cfg [(1000, Authenticate ''42'' ''s3cret''),
                          (2000, CreateSession ''42'' ''add_wallet'' Map.empty),
                          (3000, Authenticate ''42'' ''s3cret'')] [])
   \<and> one_authenticated (exec example_cfg 3000 (Logout ''42'') [auth_row, transfer_row])
   \<and> length (valid_authenticated 3000 ''42'' [auth_row, transfer_row]) \<le> 1"
proof -
  let ?db = "[auth_row, attempt_row, transfer_row]"
  let ?ops = "[(1000, Authenticate ''42'' ''s3cret''),
               (2000, CreateSession ''42'' ''add_wallet'' Map.empty),
               (3000, Authenticate ''42'' ''s3cret'')]"
  have f: "filter (\<lambda>r. \<not> (chatId r = ''42'' \<and>
              (type' r = ''auth_attempts'' \<or> type' r = ''authenticated''))) ?db = [transfer_row]"
    by (simp add: auth_row_def attempt_row_def transfer_row_def)
  have h: "BOT_PASSWORD example_cfg = Some ''s3cret'' \<and> ''s3cret'' \<noteq> []
      \<and> session_id ''42'' ''authenticated'' 2000
           \<notin> id' ` set (filter (\<lambda>r. \<not> (chatId r = ''42'' \<and>
                  (type' r = ''auth_attempts'' \<or> type' r = ''authenticated''))) ?db)
      \<and> (3000::int) < 2000 + 24 * 60 * 60 * 1000"
    unfolding f
    by (simp add: example_cfg_def transfer_row_def session_id_def toString_def dec_nat.simps
        digit_def)
  have o: "one_authenticated [auth_row, transfer_row] \<and> issued_by_bot (Logout ''42'')"
    by (simp add: one_authenticated_def auth_row_def transfer_row_def)
  have b: "\<forall>p \<in> set ?ops. issued_by_bot (snd p)"
    by simp
  note th = authenticate_single_session
    [where cfg = example_cfg and pw = "''s3cret''" and chat = "''42''" and now = 2000
       and db = ?db and t = 3000]
  note th' = authenticate_single_session
    [where cfg = example_cfg and chat = "''42''" and db = "[auth_row, transfer_row]"
       and t = 3000 and op = "Logout ''42''" and ops = ?ops]
  from th h obtain new where
    n: "authenticateUser example_cfg 2000 ''42'' ''s3cret'' ?db
          = (Returned \<lparr>success = True, message = ''Autentikasi berhasil''\<rparr>,
             filter (\<lambda>r. \<not> (chatId r = ''42'' \<and>
                 (type' r = ''auth_attempts'' \<or> type' r = ''authenticated''))) ?db @ [new])"
    and i: "id' new = session_id ''42'' ''authenticated'' 2000"
    and e: "expires new = 2000 + 24 * 60 * 60 * 1000"
    and v: "valid_authenticated 3000 ''42''
              (snd (authenticateUser example_cfg 2000 ''42'' ''s3cret'' ?db)) = [new]"
    by blast
  have 1: "map id' (snd (authenticateUser example_cfg 2000 ''42'' ''s3cret'' ?db))
             = [''42_dana_transfer_5000'', ''42_authenticated_2000'']"
    unfolding n snd_conv f
    by (simp add: i transfer_row_def session_id_def toString_def dec_nat.simps digit_def)
  have 2: "map expires (valid_authenticated 3000 ''42''
                     (snd (authenticateUser example_cfg 2000 ''42'' ''s3cret'' ?db)))
             = [86402000]"
    unfolding v by (simp add: e)
  have 3: "one_authenticated (run example_cfg ?ops [])"
    using th' b by blast
  have 4: "one_authenticated (exec example_cfg 3000 (Logout ''42'') [auth_row, transfer_row])"
    using th' o by blast
  have 5: "length (valid_authenticated 3000 ''42'' [auth_row, transfer_row]) \<le> 1"
    using th' o by blast
  show ?thesis using 1 2 3 4 5 by blast
qed


text \<open>
  The claim C5 as stated fails for the operation \<open>createSession\<close> itself, which does not
  look for earlier sessions of the kind it creates: called with the kind \<open>authenticated\<close>
  on a store that holds a valid \<open>authenticated\<close> session of chat 42, it leaves two of them.
\<close>

theorem direct_createSession_counterexample:
  "one_authenticated [auth_row]
   \<and> \<not> one_authenticated
         (exec example_cfg 2000 (CreateSession ''42'' ''authenticated'' Map.empty) [auth_row])
   \<and> length (valid_authenticated 3000 ''42''
         (exec example_cfg 2000 (CreateSession ''42'' ''authenticated'' Map.empty) [auth_row]))
       = 2"
  by (simp add: createSession_def session_id_def toString_def dec_nat.simps digit_def Let_def
      one_authenticated_def valid_authenticated_def auth_row_def)

end
